theory Spec2Isabelle
  imports Main
begin

section \<open>Index documents and the merger (internal/fetcher/fetcher.go)\<close>

text \<open>
  \<^verbatim>\<open>type BannerData struct { Version int; Linux map[string][]string }\<close>.
  A Go map is a finite partial function without order or duplicate keys, so \<open>Linux\<close>
  is a HOL map; the nil map and the empty map are both \<open>Map.empty\<close> (ranging over
  either visits nothing, and \<open>len\<close> of either is 0). A \<open>*BannerData\<close> that may be nil
  is a \<open>BannerData option\<close>.
\<close>

record BannerData =
  Version :: int
  Linux :: "string \<rightharpoonup> string list"

text \<open>
  \<open>m[key]\<close> on a Go map: the zero value (the nil slice, here the empty list) when the
  key is missing.
\<close>

definition lookupUrls :: "(string \<rightharpoonup> string list) \<Rightarrow> string \<Rightarrow> string list" where
  "lookupUrls m banner = (case m banner of None \<Rightarrow> [] | Some urls \<Rightarrow> urls)"

text \<open>
  \<open>appendUnique\<close>: \<open>seen\<close> is first filled with the items of \<open>existing\<close>, then the loop
  over \<open>new\<close> appends every item that is not in \<open>seen\<close> and records it. String equality
  in Go is equality of the bytes, here equality of the character lists.
\<close>

fun appendLoop :: "string set \<Rightarrow> string list \<Rightarrow> string list \<Rightarrow> string list" where
  "appendLoop seen result [] = result"
| "appendLoop seen result (v # new) =
     (if v \<in> seen then appendLoop seen result new
      else appendLoop (insert v seen) (result @ [v]) new)"

definition appendUnique :: "string list \<Rightarrow> string list \<Rightarrow> string list" where
  "appendUnique existing new = appendLoop (set existing) existing new"

text \<open>
  The inner loop of \<open>Merge\<close>,
  \<^verbatim>\<open>for banner, urls := range data.Linux { merged.Linux[banner] = appendUnique(merged.Linux[banner], urls) }\<close>.
  \<open>rangeLoop\<close> is the loop over the entries in the order in which \<open>range\<close> happens to
  visit them (Go leaves the order open; every key is visited once). Each round reads and
  writes the key it visits only, so the loop is the keywise update \<open>mergeRange\<close>,
  whatever the order: lemma \<open>rangeLoop_mergeRange\<close> below.
\<close>

fun rangeLoop :: "(string \<times> string list) list \<Rightarrow> (string \<rightharpoonup> string list) \<Rightarrow> (string \<rightharpoonup> string list)" where
  "rangeLoop [] merged = merged"
| "rangeLoop ((banner, urls) # entries) merged =
     rangeLoop entries (merged(banner \<mapsto> appendUnique (lookupUrls merged banner) urls))"

definition mergeRange :: "(string \<rightharpoonup> string list) \<Rightarrow> (string \<rightharpoonup> string list) \<Rightarrow> (string \<rightharpoonup> string list)" where
  "mergeRange merged linux =
     (\<lambda>banner. case linux banner of
        None \<Rightarrow> merged banner
      | Some urls \<Rightarrow> Some (appendUnique (lookupUrls merged banner) urls))"

text \<open>The outer loop of \<open>Merge\<close> over the datasets; a nil dataset is skipped.\<close>

fun mergeLoop :: "BannerData option list \<Rightarrow> (string \<rightharpoonup> string list) \<Rightarrow> (string \<rightharpoonup> string list)" where
  "mergeLoop [] merged = merged"
| "mergeLoop (None # datasets) merged = mergeLoop datasets merged"
| "mergeLoop (Some d # datasets) merged = mergeLoop datasets (mergeRange merged (Linux d))"

definition Merge :: "BannerData option list \<Rightarrow> BannerData" where
  "Merge datasets = \<lparr>Version = 1, Linux = mergeLoop datasets Map.empty\<rparr>"

text \<open>
  Two notions used to state what \<open>Merge\<close> computes: the non-nil datasets of the input, in
  input order, and the URLs the input offers for one banner, in input order.
\<close>

definition present :: "BannerData option list \<Rightarrow> BannerData list" where
  "present datasets = List.map_filter (\<lambda>d. d) datasets"

definition offered :: "BannerData option list \<Rightarrow> string \<Rightarrow> string list" where
  "offered datasets banner = concat (map (\<lambda>d. lookupUrls (Linux d) banner) (present datasets))"

definition mentions :: "BannerData option list \<Rightarrow> string \<Rightarrow> bool" where
  "mentions datasets banner = list_ex (\<lambda>d. Linux d banner \<noteq> None) (present datasets)"

text \<open>
  A proof device: the items \<open>appendLoop\<close> adds to its result, as a function of \<open>seen\<close>
  and \<open>new\<close>.
\<close>

fun fresh :: "string set \<Rightarrow> string list \<Rightarrow> string list" where
  "fresh seen [] = []"
| "fresh seen (v # new) = (if v \<in> seen then fresh seen new else v # fresh (insert v seen) new)"


section \<open>The source fetcher (internal/fetcher/fetcher.go)\<close>

text \<open>
  Instants and durations are integers counting nanoseconds, as \<open>time.Duration\<close> does;
  they are unbounded here (a \<open>time.Duration\<close> saturates after about 292 years).
\<close>

record SourceMeta =
  ETag :: string
  LastModified :: string
  UpdatedAt :: int

text \<open>
  \<open>MetaCache\<close> is a struct around one map, \<open>Sources map[string]SourceMeta\<close>; it is modelled
  as that map (a nil map is the empty map), and a \<open>*MetaCache\<close> that may be nil as an option.
\<close>

type_synonym MetaCache = "string \<rightharpoonup> SourceMeta"

datatype error =
    ErrLocked
  | AllSourcesFailed
  | CreatingCacheDir
  | CreatingLock
  | CreatingTempFile
  | EncodingJSON
  | SyncingFile
  | ClosingFile
  | RenamingCacheFile
  | CreatingRequest
  | ExecutingRequest
  | UnexpectedStatus int
  | DecodingResponse
  | ExpandingHomeDir
  | OpeningFile
  | DecodingJSON
  | MarshalFailed
  | WritingMeta

record Result =
  Source :: string
  Data :: "BannerData option"
  Meta :: "SourceMeta option"
  Modified :: bool
  Err :: "error option"

record Request =
  Method :: string
  URL :: string
  Header :: "string \<rightharpoonup> string"

record Response =
  StatusCode :: int
  RespHeader :: "string \<rightharpoonup> string"
  Body :: string

text \<open>
  The operations on files that can fail for reasons outside the program (permissions, a full
  disk, a directory in the way); \<open>Fails\<close> below says which of them do.
\<close>

datatype io_op =
    MkdirAllOp string
  | OpenOp string
  | ReadFileOp string
  | WriteFileOp string
  | RemoveOp string
  | OpenFileOp string
  | EncodeOp string
  | SyncOp string
  | CloseOp string
  | RenameOp string string

text \<open>
  What the program calls and does not define: the Go standard library and the world
  behind it. Each is a parameter, with nothing assumed about it.
  \<^item> \<open>NewRequest url\<close>: \<open>http.NewRequestWithContext\<close> accepts the URL;
  \<^item> \<open>Do idx req\<close>: the response \<open>f.client.Do(req)\<close> gets in worker \<open>idx\<close>, \<open>None\<close> for a
    transport error, a timeout or a cancelled context;
  \<^item> \<open>Decode\<close>: \<open>json.NewDecoder(r).Decode\<close> into a \<open>BannerData\<close>; \<open>Unmarshal\<close> and
    \<open>UnmarshalMeta\<close>: \<open>json.Unmarshal\<close> into a \<open>BannerData\<close> and a \<open>MetaCache\<close>;
    \<open>MarshalIndent\<close>: \<open>json.MarshalIndent(meta, "", "  ")\<close>; \<open>Encode\<close>: the bytes
    \<open>json.Encoder.Encode\<close> writes with HTML escaping off; \<open>None\<close> is the error;
  \<^item> \<open>UserHomeDir\<close>, \<open>Join\<close> (\<open>filepath.Join\<close>), \<open>Getpid\<close>;
  \<^item> \<open>Fails\<close>: the file operations that fail; \<open>Elapsed\<close>: the time the fetches take;
  \<^item> \<open>DurationSeconds n\<close>: the \<open>int\<close> that \<open>int(time.Since(t).Seconds())\<close> is when \<open>n\<close>
    nanoseconds have passed since \<open>t\<close>. The runtime computes it through a \<open>Duration\<close> that
    saturates and a \<open>float64\<close> that rounds, so it is not always \<open>n\<close> divided by \<open>10^9\<close>.
\<close>

record sys =
  NewRequest :: "string \<Rightarrow> bool"
  Do :: "nat \<Rightarrow> Request \<Rightarrow> Response option"
  Decode :: "string \<Rightarrow> BannerData option"
  Unmarshal :: "string \<Rightarrow> BannerData option"
  UnmarshalMeta :: "string \<Rightarrow> MetaCache option"
  MarshalIndent :: "MetaCache \<Rightarrow> string option"
  Encode :: "BannerData \<Rightarrow> string option"
  UserHomeDir :: "string option"
  Join :: "string \<Rightarrow> string \<Rightarrow> string"
  Getpid :: int
  Fails :: "io_op \<Rightarrow> bool"
  Elapsed :: int
  DurationSeconds :: "int \<Rightarrow> int"

text \<open>
  The file system: the regular files by path, each with its bytes, its modification time
  and its permission bits, and the wall clock. Directories are not modelled: \<open>MkdirAll\<close>
  succeeds or fails and changes no file. An operation that fails changes nothing.
\<close>

record osfile =
  bytes :: string
  modTime :: int
  perm :: nat

record world =
  files :: "string \<rightharpoonup> osfile"
  clock :: int

definition os_Stat :: "world \<Rightarrow> string \<Rightarrow> osfile option" where
  "os_Stat w name = files w name"

definition os_MkdirAll :: "sys \<Rightarrow> world \<Rightarrow> string \<Rightarrow> nat \<Rightarrow> world option" where
  "os_MkdirAll sys w dir pm = (if Fails sys (MkdirAllOp dir) then None else Some w)"

definition os_ReadFile :: "sys \<Rightarrow> world \<Rightarrow> string \<Rightarrow> string option" where
  "os_ReadFile sys w name =
     (case files w name of
        None \<Rightarrow> None
      | Some f \<Rightarrow> if Fails sys (ReadFileOp name) then None else Some (bytes f))"

text \<open>
  \<open>os.WriteFile\<close> creates the file with the given permissions, or truncates an existing
  one and leaves its permissions as they are.
\<close>

definition os_WriteFile :: "sys \<Rightarrow> world \<Rightarrow> string \<Rightarrow> string \<Rightarrow> nat \<Rightarrow> world option" where
  "os_WriteFile sys w name data pm =
     (if Fails sys (WriteFileOp name) then None
      else Some (w\<lparr>files := (files w)(name \<mapsto>
             \<lparr>bytes = data, modTime = clock w,
              perm = (case files w name of None \<Rightarrow> pm | Some f \<Rightarrow> perm f)\<rparr>)\<rparr>))"

definition os_Remove :: "sys \<Rightarrow> world \<Rightarrow> string \<Rightarrow> world option" where
  "os_Remove sys w name =
     (case files w name of
        None \<Rightarrow> None
      | Some f \<Rightarrow> if Fails sys (RemoveOp name) then None
                 else Some (w\<lparr>files := (files w)(name := None)\<rparr>))"

definition os_Rename :: "sys \<Rightarrow> world \<Rightarrow> string \<Rightarrow> string \<Rightarrow> world option" where
  "os_Rename sys w old new =
     (case files w old of
        None \<Rightarrow> None
      | Some f \<Rightarrow> if Fails sys (RenameOp old new) then None
                 else Some (w\<lparr>files := ((files w)(old := None))(new \<mapsto> f)\<rparr>))"

text \<open>A call whose error the program drops: the world after it, changed or not.\<close>

definition ignoring :: "world \<Rightarrow> world option \<Rightarrow> world" where
  "ignoring w r = (case r of None \<Rightarrow> w | Some w' \<Rightarrow> w')"

text \<open>\<open>strings.HasPrefix\<close>, \<open>strings.Contains\<close> and \<open>strings.TrimPrefix\<close>.\<close>

fun HasPrefix :: "string \<Rightarrow> string \<Rightarrow> bool" where
  "HasPrefix s [] = True"
| "HasPrefix [] (p # ps) = False"
| "HasPrefix (c # s) (p # ps) = (c = p \<and> HasPrefix s ps)"

fun Contains :: "string \<Rightarrow> string \<Rightarrow> bool" where
  "Contains [] sub = (sub = [])"
| "Contains (c # s) sub = (HasPrefix (c # s) sub \<or> Contains s sub)"

definition TrimPrefix :: "string \<Rightarrow> string \<Rightarrow> string" where
  "TrimPrefix s p = (if HasPrefix s p then drop (length p) s else s)"

definition isLocalPath :: "string \<Rightarrow> bool" where
  "isLocalPath source =
     (if HasPrefix source ''file://'' then True
      else if HasPrefix source ''/'' \<or> HasPrefix source ''~'' then True
      else if \<not> Contains source ''://'' then True
      else False)"

definition fetchLocal :: "sys \<Rightarrow> world \<Rightarrow> string \<Rightarrow> error + BannerData" where
  "fetchLocal sys w source =
     (let path = TrimPrefix source ''file://'' in
      case (if HasPrefix path ''~''
            then (case UserHomeDir sys of
                    None \<Rightarrow> Inl ExpandingHomeDir
                  | Some home \<Rightarrow> Inr (Join sys home (drop 1 path)))
            else Inr path) of
        Inl e \<Rightarrow> Inl e
      | Inr path' \<Rightarrow>
          (case files w path' of
             None \<Rightarrow> Inl OpeningFile
           | Some f \<Rightarrow>
               if Fails sys (OpenOp path') then Inl OpeningFile
               else (case Decode sys (bytes f) of
                       None \<Rightarrow> Inl DecodingJSON
                     | Some data \<Rightarrow> Inr data)))"

definition UserAgent :: string where
  "UserAgent = ''basar/1.0''"

text \<open>\<open>Header.Get\<close>: the empty string when the header is absent.\<close>

definition headerGet :: "(string \<rightharpoonup> string) \<Rightarrow> string \<Rightarrow> string" where
  "headerGet h k = (case h k of None \<Rightarrow> [] | Some v \<Rightarrow> v)"

text \<open>
  The request \<open>fetchHTTPWithMeta\<close> builds before it calls \<open>f.client.Do\<close>: a GET with the
  User-Agent header and, when \<open>meta\<close> is not nil, one conditional header per non-empty
  validator.
\<close>

definition buildRequest :: "string \<Rightarrow> SourceMeta option \<Rightarrow> Request" where
  "buildRequest url meta =
     (let h0 = [''User-Agent'' \<mapsto> UserAgent];
          h2 = (case meta of
                  None \<Rightarrow> h0
                | Some m \<Rightarrow>
                    (let h1 = (if ETag m \<noteq> [] then h0(''If-None-Match'' \<mapsto> ETag m) else h0)
                     in if LastModified m \<noteq> [] then h1(''If-Modified-Since'' \<mapsto> LastModified m)
                        else h1))
      in \<lparr>Method = ''GET'', URL = url, Header = h2\<rparr>)"

text \<open>
  The four results of \<open>FetchWithMeta\<close> and \<open>fetchHTTPWithMeta\<close>: data, metadata,
  modified, error.
\<close>

type_synonym fetched = "BannerData option \<times> SourceMeta option \<times> bool \<times> error option"

text \<open>
  Sending a request is an effect on the network, so the model of a fetch returns, next
  to the four results, the requests it has handed to \<open>f.client.Do\<close>, in order: none when
  the request cannot be built, the one request otherwise. The answer is what \<open>Do\<close> gives
  for that request.
\<close>

definition fetchHTTPWithMeta :: "sys \<Rightarrow> int \<Rightarrow> nat \<Rightarrow> string \<Rightarrow> SourceMeta option
    \<Rightarrow> Request list \<times> fetched" where
  "fetchHTTPWithMeta sys now idx url meta =
     (if \<not> NewRequest sys url then ([], (None, None, False, Some CreatingRequest))
      else
        (let req = buildRequest url meta in
         ([req],
          (case Do sys idx req of
             None \<Rightarrow> (None, None, False, Some ExecutingRequest)
           | Some resp \<Rightarrow>
               if StatusCode resp = 304 then (None, meta, False, None)
               else if StatusCode resp \<noteq> 200
                 then (None, None, False, Some (UnexpectedStatus (StatusCode resp)))
               else (case Decode sys (Body resp) of
                       None \<Rightarrow> (None, None, False, Some DecodingResponse)
                     | Some data \<Rightarrow>
                         (Some data,
                          Some \<lparr>ETag = headerGet (RespHeader resp) ''ETag'',
                                LastModified = headerGet (RespHeader resp) ''Last-Modified'',
                                UpdatedAt = now\<rparr>,
                          True, None))))))"

text \<open>A local source sends no request.\<close>

definition FetchWithMeta :: "sys \<Rightarrow> world \<Rightarrow> nat \<Rightarrow> string \<Rightarrow> SourceMeta option
    \<Rightarrow> Request list \<times> fetched" where
  "FetchWithMeta sys w idx source meta =
     (if isLocalPath source
      then ([],
            (case fetchLocal sys w source of
               Inl e \<Rightarrow> (None, None, False, Some e)
             | Inr data \<Rightarrow>
                 (Some data, Some \<lparr>ETag = [], LastModified = [], UpdatedAt = clock w\<rparr>, True, None)))
      else fetchHTTPWithMeta sys (clock w) idx source meta)"

text \<open>
  \<open>FetchAllWithMeta\<close> starts one goroutine per source; each writes its own slot of
  \<open>results\<close> and the function returns when all are done, so the result vector is the
  fetch of each source at its input position. The workers read files and write none;
  the clock has moved on by \<open>Elapsed\<close> when they are done. The results are what the
  controller reads; the requests sent are not passed on.
\<close>

definition fetchWorker :: "sys \<Rightarrow> world \<Rightarrow> MetaCache option \<Rightarrow> nat \<times> string \<Rightarrow> Result" where
  "fetchWorker sys w meta = (\<lambda>(idx, source).
     (let srcMeta = (case meta of None \<Rightarrow> None | Some m \<Rightarrow> m source) in
      case snd (FetchWithMeta sys w idx source srcMeta) of
        (data, newMeta, modified, err) \<Rightarrow>
          \<lparr>Source = source, Data = data, Meta = newMeta, Modified = modified, Err = err\<rparr>))"

definition FetchAllWithMeta :: "sys \<Rightarrow> world \<Rightarrow> string list \<Rightarrow> MetaCache option \<Rightarrow> Result list \<times> world" where
  "FetchAllWithMeta sys w sources meta =
     (map (fetchWorker sys w meta) (enumerate 0 sources), w\<lparr>clock := clock w + Elapsed sys\<rparr>)"

definition FetchAll :: "sys \<Rightarrow> world \<Rightarrow> string list \<Rightarrow> Result list \<times> world" where
  "FetchAll sys w sources = FetchAllWithMeta sys w sources None"


section \<open>The cache controller (package cache)\<close>

record Config =
  CacheDir :: string
  ConfigDir :: string
  CacheFile :: string
  ConfigFile :: string
  LockFile :: string
  TTL :: int
  Sources :: "string list"

definition LockTimeout :: int where
  "LockTimeout = 5 * 60 * 1000000000"

text \<open>\<open>FileMode = 0644\<close> and \<open>DirMode = 0755\<close>, octal.\<close>

definition FileMode :: nat where
  "FileMode = 6 * 64 + 4 * 8 + 4"

definition DirMode :: nat where
  "DirMode = 7 * 64 + 5 * 8 + 5"

record Stats =
  Valid :: bool
  Path :: string
  Entries :: nat
  Size :: nat
  AgeSeconds :: int
  StatsUpdatedAt :: int

text \<open>
  The zero \<open>time.Time\<close> (1 January of year 1, UTC) as an instant, and \<open>Stats{Valid: false}\<close>.
\<close>

definition zeroTime :: int where
  "zeroTime = - 62135596800 * 1000000000"

definition invalidStats :: Stats where
  "invalidStats = \<lparr>Valid = False, Path = [], Entries = 0, Size = 0, AgeSeconds = 0,
                    StatsUpdatedAt = zeroTime\<rparr>"

definition IsValid :: "Config \<Rightarrow> world \<Rightarrow> bool" where
  "IsValid cfg w =
     (case os_Stat w (CacheFile cfg) of
        None \<Rightarrow> False
      | Some info \<Rightarrow> clock w - modTime info < TTL cfg)"

definition cacheStats :: "sys \<Rightarrow> Config \<Rightarrow> world \<Rightarrow> Stats" where
  "cacheStats sys cfg w =
     (case os_Stat w (CacheFile cfg) of
        None \<Rightarrow> invalidStats
      | Some info \<Rightarrow>
          (case os_ReadFile sys w (CacheFile cfg) of
             None \<Rightarrow> invalidStats
           | Some data \<Rightarrow>
               (case Unmarshal sys data of
                  None \<Rightarrow> invalidStats
                | Some banners \<Rightarrow>
                    \<lparr>Valid = True, Path = CacheFile cfg, Entries = card (dom (Linux banners)),
                     Size = length (bytes info),
                     AgeSeconds = DurationSeconds sys (clock w - modTime info),
                     StatsUpdatedAt = modTime info\<rparr>)))"

definition metaFile :: "sys \<Rightarrow> Config \<Rightarrow> string" where
  "metaFile sys cfg = Join sys (CacheDir cfg) ''meta.json''"

definition loadMeta :: "sys \<Rightarrow> Config \<Rightarrow> world \<Rightarrow> MetaCache" where
  "loadMeta sys cfg w =
     (case os_ReadFile sys w (metaFile sys cfg) of
        None \<Rightarrow> Map.empty
      | Some data \<Rightarrow> (case UnmarshalMeta sys data of None \<Rightarrow> Map.empty | Some meta \<Rightarrow> meta))"

definition saveMeta :: "sys \<Rightarrow> Config \<Rightarrow> world \<Rightarrow> MetaCache \<Rightarrow> error option \<times> world" where
  "saveMeta sys cfg w meta =
     (case MarshalIndent sys meta of
        None \<Rightarrow> (Some MarshalFailed, w)
      | Some data \<Rightarrow>
          (case os_WriteFile sys w (metaFile sys cfg) data FileMode of
             None \<Rightarrow> (Some WritingMeta, w)
           | Some w' \<Rightarrow> (None, w')))"

definition loadExistingBanners :: "sys \<Rightarrow> Config \<Rightarrow> world \<Rightarrow> BannerData option" where
  "loadExistingBanners sys cfg w =
     (case os_ReadFile sys w (CacheFile cfg) of
        None \<Rightarrow> None
      | Some data \<Rightarrow> Unmarshal sys data)"

text \<open>\<open>strconv.Itoa\<close>, for the process identifier in the lock file.\<close>

fun digits :: "nat \<Rightarrow> string" where
  "digits n = (if n < 10 then [''0123456789'' ! n]
               else digits (n div 10) @ [''0123456789'' ! (n mod 10)])"

declare digits.simps [simp del]

definition Itoa :: "int \<Rightarrow> string" where
  "Itoa i = (if i < 0 then CHR ''-'' # digits (nat (- i)) else digits (nat i))"

definition acquireLock :: "sys \<Rightarrow> Config \<Rightarrow> world \<Rightarrow> error option \<times> world" where
  "acquireLock sys cfg w =
     (case os_MkdirAll sys w (CacheDir cfg) DirMode of
        None \<Rightarrow> (Some CreatingCacheDir, w)
      | Some w1 \<Rightarrow>
          (case (case os_Stat w1 (LockFile cfg) of
                   None \<Rightarrow> Inr w1
                 | Some info \<Rightarrow>
                     if clock w1 - modTime info < LockTimeout then Inl ErrLocked
                     else Inr (ignoring w1 (os_Remove sys w1 (LockFile cfg)))) of
             Inl e \<Rightarrow> (Some e, w1)
           | Inr w2 \<Rightarrow>
               (case os_WriteFile sys w2 (LockFile cfg) (Itoa (Getpid sys)) FileMode of
                  None \<Rightarrow> (Some CreatingLock, w2)
                | Some w3 \<Rightarrow> (None, w3))))"

definition releaseLock :: "sys \<Rightarrow> Config \<Rightarrow> world \<Rightarrow> world" where
  "releaseLock sys cfg w = ignoring w (os_Remove sys w (LockFile cfg))"

text \<open>
  The test of \<open>acquireLock\<close> on the lock file, as a predicate on the world: the file
  exists and \<open>time.Since(info.ModTime()) < LockTimeout\<close>.
\<close>

definition lockIsYoung :: "Config \<Rightarrow> world \<Rightarrow> bool" where
  "lockIsYoung cfg w =
     (case files w (LockFile cfg) of
        None \<Rightarrow> False
      | Some info \<Rightarrow> clock w - modTime info < LockTimeout)"

text \<open>
  \<open>writeCache\<close> is the method \<open>write\<close> of the source (the name is a keyword here): the temporary file is opened (created or truncated), the document encoded into
  it, the file synced and closed, then renamed over the cache file; after a failure the
  temporary file is removed, the error of the removal dropped.
\<close>

definition openTrunc :: "sys \<Rightarrow> world \<Rightarrow> string \<Rightarrow> nat \<Rightarrow> world option" where
  "openTrunc sys w name pm =
     (if Fails sys (OpenFileOp name) then None
      else Some (w\<lparr>files := (files w)(name \<mapsto>
             \<lparr>bytes = [], modTime = clock w,
              perm = (case files w name of None \<Rightarrow> pm | Some f \<Rightarrow> perm f)\<rparr>)\<rparr>))"

definition encodeInto :: "sys \<Rightarrow> world \<Rightarrow> string \<Rightarrow> BannerData \<Rightarrow> world option" where
  "encodeInto sys w name data =
     (case (Encode sys data, files w name) of
        (Some b, Some f) \<Rightarrow>
          if Fails sys (EncodeOp name) then None
          else Some (w\<lparr>files := (files w)(name \<mapsto> f\<lparr>bytes := b, modTime := clock w\<rparr>)\<rparr>)
      | _ \<Rightarrow> None)"

definition writeCache :: "sys \<Rightarrow> Config \<Rightarrow> world \<Rightarrow> BannerData \<Rightarrow> error option \<times> world" where
  "writeCache sys cfg w data =
     (case os_MkdirAll sys w (CacheDir cfg) DirMode of
        None \<Rightarrow> (Some CreatingCacheDir, w)
      | Some w0 \<Rightarrow>
          (let tmp = CacheFile cfg @ ''.tmp'' in
           case openTrunc sys w0 tmp FileMode of
             None \<Rightarrow> (Some CreatingTempFile, w0)
           | Some w1 \<Rightarrow>
               (case encodeInto sys w1 tmp data of
                  None \<Rightarrow> (Some EncodingJSON, ignoring w1 (os_Remove sys w1 tmp))
                | Some w2 \<Rightarrow>
                    if Fails sys (SyncOp tmp)
                      then (Some SyncingFile, ignoring w2 (os_Remove sys w2 tmp))
                    else if Fails sys (CloseOp tmp)
                      then (Some ClosingFile, ignoring w2 (os_Remove sys w2 tmp))
                    else (case os_Rename sys w2 tmp (CacheFile cfg) of
                            None \<Rightarrow> (Some RenamingCacheFile, ignoring w2 (os_Remove sys w2 tmp))
                          | Some w3 \<Rightarrow> (None, w3)))))"

text \<open>
  None of the file operations of \<open>writeCache\<close> fails: what "the write works" means in
  the statements below.
\<close>

definition writeWorks :: "sys \<Rightarrow> Config \<Rightarrow> bool" where
  "writeWorks sys cfg =
     (\<not> Fails sys (MkdirAllOp (CacheDir cfg))
      \<and> \<not> Fails sys (OpenFileOp (CacheFile cfg @ ''.tmp''))
      \<and> \<not> Fails sys (EncodeOp (CacheFile cfg @ ''.tmp''))
      \<and> \<not> Fails sys (SyncOp (CacheFile cfg @ ''.tmp''))
      \<and> \<not> Fails sys (CloseOp (CacheFile cfg @ ''.tmp''))
      \<and> \<not> Fails sys (RenameOp (CacheFile cfg @ ''.tmp'') (CacheFile cfg)))"

text \<open>
  The loop of \<open>SmartUpdate\<close> over the results, on \<open>datasets\<close>, \<open>anyModified\<close> and
  \<open>newMeta\<close>. \<open>existing\<close> is what \<open>c.loadExistingBanners()\<close> returns: the loop writes no
  file, so every call in it returns the same. The lines written to standard error when
  \<open>verbose\<close> is set change no file and no result and are left out.
\<close>

fun gather :: "BannerData option \<Rightarrow> MetaCache \<Rightarrow> Result list
    \<Rightarrow> BannerData option list \<times> bool \<times> MetaCache
    \<Rightarrow> BannerData option list \<times> bool \<times> MetaCache" where
  "gather existing meta [] acc = acc"
| "gather existing meta (r # rs) (datasets, anyModified, newMeta) =
     (if Err r \<noteq> None then
        gather existing meta rs
          (datasets, anyModified,
           (case meta (Source r) of None \<Rightarrow> newMeta | Some old \<Rightarrow> newMeta(Source r \<mapsto> old)))
      else
        (let newMeta' = (case Meta r of None \<Rightarrow> newMeta | Some m \<Rightarrow> newMeta(Source r \<mapsto> m)) in
         if Modified r \<and> Data r \<noteq> None then
           gather existing meta rs (datasets @ [Data r], True, newMeta')
         else if \<not> Modified r then
           gather existing meta rs
             ((case existing of None \<Rightarrow> datasets | Some e \<Rightarrow> datasets @ [Some e]),
              anyModified, newMeta')
         else gather existing meta rs (datasets, anyModified, newMeta')))"


text \<open>
  \<open>SmartUpdate\<close> after the lock is taken, up to the deferred \<open>releaseLock\<close>: the result
  \<open>(updated, error)\<close> and the world.
\<close>

definition smartUpdateLocked :: "sys \<Rightarrow> Config \<Rightarrow> world \<Rightarrow> (bool \<times> error option) \<times> world" where
  "smartUpdateLocked sys cfg w1 =
     (let meta = loadMeta sys cfg w1 in
      case FetchAllWithMeta sys w1 (Sources cfg) (Some meta) of
        (results, w2) \<Rightarrow>
          (case gather (loadExistingBanners sys cfg w2) meta results ([], False, Map.empty) of
             (datasets, anyModified, newMeta) \<Rightarrow>
               (let w3 = snd (saveMeta sys cfg w2 newMeta) in
                if \<not> anyModified \<and> IsValid cfg w3 then ((False, None), w3)
                else if length datasets = 0 then ((False, Some AllSourcesFailed), w3)
                else (case writeCache sys cfg w3 (Merge datasets) of
                        (Some e, w4) \<Rightarrow> ((False, Some e), w4)
                      | (None, w4) \<Rightarrow> ((anyModified, None), w4)))))"

definition SmartUpdate :: "sys \<Rightarrow> Config \<Rightarrow> world \<Rightarrow> (bool \<times> error option) \<times> world" where
  "SmartUpdate sys cfg w =
     (case acquireLock sys cfg w of
        (Some e, w1) \<Rightarrow> ((False, Some e), w1)
      | (None, w1) \<Rightarrow>
          (case smartUpdateLocked sys cfg w1 of
             (ret, w5) \<Rightarrow> (ret, releaseLock sys cfg w5)))"

text \<open>The loop of \<open>Update\<close>: the data of every result without an error.\<close>

fun survivors :: "Result list \<Rightarrow> BannerData option list" where
  "survivors [] = []"
| "survivors (r # rs) = (if Err r \<noteq> None then survivors rs else Data r # survivors rs)"

definition updateLocked :: "sys \<Rightarrow> Config \<Rightarrow> world \<Rightarrow> error option \<times> world" where
  "updateLocked sys cfg w1 =
     (case FetchAll sys w1 (Sources cfg) of
        (results, w2) \<Rightarrow>
          (let datasets = survivors results in
           if length datasets = 0 then (Some AllSourcesFailed, w2)
           else writeCache sys cfg w2 (Merge datasets)))"

definition Update :: "sys \<Rightarrow> Config \<Rightarrow> world \<Rightarrow> bool \<Rightarrow> error option \<times> world" where
  "Update sys cfg w force =
     (if \<not> force \<and> IsValid cfg w then (None, w)
      else (case acquireLock sys cfg w of
              (Some e, w1) \<Rightarrow> (Some e, w1)
            | (None, w1) \<Rightarrow>
                (case updateLocked sys cfg w1 of
                   (ret, w3) \<Rightarrow> (ret, releaseLock sys cfg w3))))"

section \<open>Sample inputs\<close>

text \<open>
  Concrete inputs for the examples below. \<open>quietSys\<close> is a machine on which no file
  operation fails, no server answers and nothing decodes; each example changes what it
  needs. The decoders are given as tables of what \<open>encoding/json\<close> does on the texts used.
\<close>

definition quietSys :: sys where
  "quietSys =
     \<lparr>NewRequest = (\<lambda>url. True), Do = (\<lambda>idx req. None), Decode = (\<lambda>b. None),
      Unmarshal = (\<lambda>b. None), UnmarshalMeta = (\<lambda>b. None), MarshalIndent = (\<lambda>m. None),
      Encode = (\<lambda>d. None), UserHomeDir = None, Join = (\<lambda>dir name. dir @ ''/'' @ name),
      Getpid = 4242, Fails = (\<lambda>op. False), Elapsed = 0,
      DurationSeconds = (\<lambda>n. n div 1000000000)\<rparr>"

text \<open>
  A server that answers 304 to a request carrying its entity tag in \<open>If-None-Match\<close>
  and 200 with the document and the tag otherwise (the handler of \<open>TestFetchHTTPWithETag\<close>).
\<close>

definition etagServer :: "nat \<Rightarrow> Request \<Rightarrow> Response option" where
  \<open>etagServer idx req =
     (if Header req ''If-None-Match'' = Some ''"abc"''
      then Some \<lparr>StatusCode = 304, RespHeader = Map.empty, Body = []\<rparr>
      else Some \<lparr>StatusCode = 200, RespHeader = [''ETag'' \<mapsto> ''"abc"''],
                 Body = ''{"version":1,"linux":{"K":["u1"]}}''\<rparr>)\<close>

definition priorA :: SourceMeta where
  \<open>priorA = \<lparr>ETag = ''"abc"'', LastModified = ''Wed, 01 Jan 2025 00:00:00 GMT'', UpdatedAt = 1000\<rparr>\<close>

text \<open>The paths of \<open>testConfig\<close>, in a directory \<open>/c\<close>; a TTL of 24 hours; one remote source.\<close>

definition demoCfg :: Config where
  "demoCfg =
     \<lparr>CacheDir = ''/c'', ConfigDir = ''/etc/basar'', CacheFile = ''/c/banners.json'',
      ConfigFile = ''/etc/basar/sources.conf'', LockFile = ''/c/.lock'',
      TTL = 24 * 3600 * 1000000000, Sources = [''https://a.example/banners.json'']\<rparr>"

text \<open>
  What \<open>json.Unmarshal\<close> into a \<open>BannerData\<close> does on four texts: the literal \<open>null\<close> and
  the empty object leave the struct at its zero value, without an error; a document is
  decoded whatever its version; text that is not JSON is an error.
\<close>

definition sampleUnmarshal :: "string \<Rightarrow> BannerData option" where
  \<open>sampleUnmarshal b =
     (if b = ''null'' then Some \<lparr>Version = 0, Linux = Map.empty\<rparr>
      else if b = ''{}'' then Some \<lparr>Version = 0, Linux = Map.empty\<rparr>
      else if b = ''{"version":7,"linux":{"K":["u1"]}}'' then Some \<lparr>Version = 7, Linux = [''K'' \<mapsto> [''u1'']]\<rparr>
      else if b = ''{"version":1,"linux":{"K":["u1"]}}'' then Some \<lparr>Version = 1, Linux = [''K'' \<mapsto> [''u1'']]\<rparr>
      else None)\<close>

text \<open>A world whose only file is the cache file, with the given bytes and modification time.\<close>

definition cacheHolding :: "string \<Rightarrow> int \<Rightarrow> int \<Rightarrow> world" where
  "cacheHolding b mtime now =
     \<lparr>files = [''/c/banners.json'' \<mapsto> \<lparr>bytes = b, modTime = mtime, perm = FileMode\<rparr>], clock = now\<rparr>"

text \<open>A world whose only file is the lock file of another process, last written at \<open>mtime\<close>.\<close>

definition lockHeld :: "int \<Rightarrow> int \<Rightarrow> world" where
  "lockHeld mtime now =
     \<lparr>files = [''/c/.lock'' \<mapsto> \<lparr>bytes = ''12345'', modTime = mtime, perm = FileMode\<rparr>], clock = now\<rparr>"

text \<open>
  A machine for the runs of \<open>Update\<close> and \<open>SmartUpdate\<close> below. Source A is served by a
  server whose current entity tag is \<open>v1\<close>: it answers 304 to a request carrying
  \<open>If-None-Match: v1\<close> and 200 with the one-banner document otherwise; every other URL is
  unreachable. The JSON functions are tables on the texts and values the runs meet: the
  document, with and without the newline \<open>Encoder.Encode\<close> appends, and the sidecar as
  \<open>MarshalIndent\<close> prints it for one source with an entity tag.
\<close>

definition srcA :: string where
  "srcA = ''https://a.example/banners.json''"

definition srcB :: string where
  "srcB = ''https://b.example/banners.json''"

definition docK :: BannerData where
  "docK = \<lparr>Version = 1, Linux = [''K'' \<mapsto> [''u1'']]\<rparr>"

definition docKText :: string where
  \<open>docKText = ''{"version":1,"linux":{"K":["u1"]}}''\<close>

definition v1Server :: "nat \<Rightarrow> Request \<Rightarrow> Response option" where
  "v1Server idx req =
     (if URL req \<noteq> srcA then None
      else if Header req ''If-None-Match'' = Some ''v1''
      then Some \<lparr>StatusCode = 304, RespHeader = Map.empty, Body = []\<rparr>
      else Some \<lparr>StatusCode = 200, RespHeader = [''ETag'' \<mapsto> ''v1''], Body = docKText\<rparr>)"

definition sampleDecode :: "string \<Rightarrow> BannerData option" where
  "sampleDecode b = (if b = docKText \<or> b = docKText @ [CHR 0x0A] then Some docK else None)"

definition sampleEncode :: "BannerData \<Rightarrow> string option" where
  "sampleEncode d =
     (if Version d = 1 \<and> Linux d ''K'' = Some [''u1''] then Some (docKText @ [CHR 0x0A]) else None)"

definition metaTagged :: "string \<Rightarrow> SourceMeta" where
  "metaTagged tag = \<lparr>ETag = tag, LastModified = [], UpdatedAt = 1000\<rparr>"

definition sidecarText :: "string \<Rightarrow> string" where
  \<open>sidecarText tag =
     ''{'' @ [CHR 0x0A] @
     ''  "sources": {'' @ [CHR 0x0A] @
     ''    "https://a.example/banners.json": {'' @ [CHR 0x0A] @
     ''      "etag": "'' @ tag @ ''",'' @ [CHR 0x0A] @
     ''      "updated_at": "1970-01-01T00:00:00.000001Z"'' @ [CHR 0x0A] @
     ''    }'' @ [CHR 0x0A] @
     ''  }'' @ [CHR 0x0A] @
     ''}''\<close>

definition sampleUnmarshalMeta :: "string \<Rightarrow> MetaCache option" where
  "sampleUnmarshalMeta b =
     (if b = sidecarText ''v1'' then Some [srcA \<mapsto> metaTagged ''v1'']
      else if b = sidecarText ''v0'' then Some [srcA \<mapsto> metaTagged ''v0'']
      else None)"

definition sampleMarshalIndent :: "MetaCache \<Rightarrow> string option" where
  "sampleMarshalIndent m =
     (if m srcA = Some (metaTagged ''v1'') then Some (sidecarText ''v1'')
      else if m srcA = Some (metaTagged ''v0'') then Some (sidecarText ''v0'')
      else None)"

definition sampleSys :: "(nat \<Rightarrow> Request \<Rightarrow> Response option) \<Rightarrow> sys" where
  "sampleSys server =
     quietSys\<lparr>Do := server, Decode := sampleDecode, Unmarshal := sampleDecode,
              UnmarshalMeta := sampleUnmarshalMeta, MarshalIndent := sampleMarshalIndent,
              Encode := sampleEncode\<rparr>"

definition worldWith :: "osfile option \<Rightarrow> osfile option \<Rightarrow> int \<Rightarrow> world" where
  "worldWith cache sidecar now =
     \<lparr>files = (Map.empty(''/c/banners.json'' := cache))(''/c/meta.json'' := sidecar), clock = now\<rparr>"

definition cfgAB :: Config where
  "cfgAB = demoCfg\<lparr>Sources := [srcA, srcB]\<rparr>"

text \<open>A sidecar file and a cache file as an earlier run left them.\<close>

definition sidecarFile :: "string \<Rightarrow> osfile" where
  "sidecarFile tag = \<lparr>bytes = sidecarText tag, modTime = 1000, perm = FileMode\<rparr>"

definition cacheFileAt :: "int \<Rightarrow> osfile" where
  "cacheFileAt mtime = \<lparr>bytes = docKText @ [CHR 0x0A], modTime = mtime, perm = FileMode\<rparr>"


section \<open>Properties of the merger\<close>

lemma appendLoop_fresh: "appendLoop seen result new = result @ fresh seen new"
  by (induction new arbitrary: seen result) auto

lemma appendUnique_fresh: "appendUnique existing new = existing @ fresh (set existing) new"
  by (simp add: appendUnique_def appendLoop_fresh)

lemma set_fresh: "set (fresh seen new) = set new - seen"
  by (induction new arbitrary: seen) auto

lemma distinct_fresh: "distinct (fresh seen new)"
  by (induction new arbitrary: seen) (auto simp: set_fresh)

lemma fresh_append: "fresh seen (xs @ ys) = fresh seen xs @ fresh (seen \<union> set xs) ys"
  by (induction xs arbitrary: seen) (auto simp: insert_absorb)

lemma fresh_fresh: "seen' \<subseteq> seen \<Longrightarrow> fresh seen (fresh seen' new) = fresh seen new"
  by (induction new arbitrary: seen seen') (auto simp: subset_insertI2)

lemma remdups_snoc: "remdups (xs @ [v]) = remdups (filter (\<lambda>x. x \<noteq> v) xs) @ [v]"
  by (induction xs) auto

lemma fresh_remdups:
  "fresh seen new = rev (remdups (rev (filter (\<lambda>v. v \<notin> seen) new)))"
proof (induction new arbitrary: seen)
  case Nil
  show ?case by simp
next
  case (Cons v new)
  show ?case
  proof (cases "v \<in> seen")
    case True
    then show ?thesis using Cons.IH [of seen] by simp
  next
    case False
    then show ?thesis
      using Cons.IH [of "insert v seen"]
      by (simp add: remdups_snoc rev_filter [symmetric] conj_commute)
  qed
qed

lemma lookupUrls_upd:
  "lookupUrls (m(k \<mapsto> v)) k' = (if k' = k then v else lookupUrls m k')"
  by (simp add: lookupUrls_def)

lemma mergeRange_apply:
  "mergeRange merged linux b =
     (case linux b of None \<Rightarrow> merged b
      | Some urls \<Rightarrow> Some (appendUnique (lookupUrls merged b) urls))"
  by (simp add: mergeRange_def)

lemma lookupUrls_mergeRange:
  "lookupUrls (mergeRange merged linux) b =
     (case linux b of None \<Rightarrow> lookupUrls merged b
      | Some urls \<Rightarrow> appendUnique (lookupUrls merged b) urls)"
  by (simp add: mergeRange_def lookupUrls_def split: option.splits)

lemma rangeLoop_mergeRange:
  "distinct (map fst entries) \<Longrightarrow> rangeLoop entries merged = mergeRange merged (map_of entries)"
proof (induction entries arbitrary: merged)
  case Nil
  show ?case by (simp add: mergeRange_def)
next
  case (Cons e entries)
  obtain banner urls where e: "e = (banner, urls)" by (cases e)
  from Cons.prems e have notin: "map_of entries banner = None" and d: "distinct (map fst entries)"
    by (auto simp: map_of_eq_None_iff)
  show ?case
  proof (rule ext)
    fix k
    show "rangeLoop (e # entries) merged k = mergeRange merged (map_of (e # entries)) k"
    proof (cases "k = banner")
      case True
      then show ?thesis
        by (simp add: e Cons.IH [OF d] mergeRange_def notin)
    next
      case False
      then show ?thesis
        by (simp add: e Cons.IH [OF d] mergeRange_def lookupUrls_def split: option.splits)
    qed
  qed
qed

lemma appendUnique_append:
  "appendUnique (appendUnique existing xs) ys = appendUnique existing (xs @ ys)"
  by (simp add: appendUnique_fresh fresh_append set_fresh Un_Diff_cancel)

lemma appendUnique_Nil: "appendUnique existing [] = existing"
  by (simp add: appendUnique_def)

lemma present_simps:
  "present [] = []" "present (None # ds) = present ds" "present (Some d # ds) = d # present ds"
  by (simp_all add: present_def List.map_filter_simps)

lemma offered_simps:
  "offered [] b = []" "offered (None # ds) b = offered ds b"
  "offered (Some d # ds) b = lookupUrls (Linux d) b @ offered ds b"
  by (simp_all add: offered_def present_simps)

lemma mentions_simps:
  "mentions [] b = False" "mentions (None # ds) b = mentions ds b"
  "mentions (Some d # ds) b = (Linux d b \<noteq> None \<or> mentions ds b)"
  by (simp_all add: mentions_def present_simps)

lemma offered_unmentioned: "\<not> mentions ds b \<Longrightarrow> offered ds b = []"
proof (induction ds)
  case Nil
  show ?case by (simp add: offered_simps)
next
  case (Cons d ds)
  then show ?case
    by (cases d) (auto simp: offered_simps mentions_simps lookupUrls_def)
qed

lemma mergeLoop_banner:
  "mergeLoop ds merged b =
     (if mentions ds b then Some (appendUnique (lookupUrls merged b) (offered ds b)) else merged b)"
proof (induction ds merged rule: mergeLoop.induct)
  case (1 merged)
  show ?case by (simp add: mentions_simps)
next
  case (2 ds merged)
  then show ?case by (simp add: mentions_simps offered_simps)
next
  case (3 d ds merged)
  show ?case
  proof (cases "Linux d b")
    case None
    have a: "mergeRange merged (Linux d) b = merged b"
      by (simp add: mergeRange_def None)
    have l: "lookupUrls (mergeRange merged (Linux d)) b = lookupUrls merged b"
      by (simp add: lookupUrls_mergeRange None)
    show ?thesis
      by (simp add: "3.IH" a l mentions_simps offered_simps None lookupUrls_def [of "Linux d"])
  next
    case (Some urls)
    have a: "mergeRange merged (Linux d) b = Some (appendUnique (lookupUrls merged b) urls)"
      by (simp add: mergeRange_def Some)
    have l: "lookupUrls (mergeRange merged (Linux d)) b = appendUnique (lookupUrls merged b) urls"
      by (simp add: lookupUrls_mergeRange Some)
    show ?thesis
      by (simp add: "3.IH" a l mentions_simps offered_simps Some lookupUrls_def [of "Linux d"]
          appendUnique_append offered_unmentioned appendUnique_Nil)
  qed
qed

lemma Merge_banner:
  "Linux (Merge ds) b = (if mentions ds b then Some (fresh {} (offered ds b)) else None)"
  by (simp add: Merge_def mergeLoop_banner lookupUrls_def appendUnique_fresh)


lemma mergeLoop_append: "mergeLoop (ds @ es) merged = mergeLoop es (mergeLoop ds merged)"
  by (induction ds merged rule: mergeLoop.induct) simp_all

lemma mergeLoop_present: "mergeLoop (map Some (present ds)) merged = mergeLoop ds merged"
  by (induction ds merged rule: mergeLoop.induct) (simp_all add: present_simps)

lemma fresh_empty_remdups: "fresh {} new = rev (remdups (rev new))"
  by (simp add: fresh_remdups)

lemma lookupUrls_Merge: "lookupUrls (Linux (Merge ds)) b = fresh {} (offered ds b)"
  by (simp add: Merge_banner lookupUrls_def offered_unmentioned)

lemma mergeRange_assoc:
  "mergeRange A (mergeRange (mergeRange Map.empty B) C) = mergeRange (mergeRange A B) C"
proof (rule ext)
  fix k
  show "mergeRange A (mergeRange (mergeRange Map.empty B) C) k = mergeRange (mergeRange A B) C k"
    by (cases "B k"; cases "C k")
      (simp_all add: mergeRange_apply lookupUrls_mergeRange lookupUrls_def [of Map.empty]
        appendUnique_fresh fresh_append fresh_fresh set_fresh Un_Diff_cancel)
qed

text \<open>
  Claim C1. For every list of input documents and every banner: the version of the merged
  document is 1; nil entries are skipped (merging the list is merging its non-nil entries);
  the banner is a key of the output exactly when some input has it, and its URL list is
  then the URLs the inputs offer for it, in input order, each kept at its first occurrence
  only (\<open>rev (remdups (rev xs))\<close> keeps the first occurrence of every item of \<open>xs\<close>, in
  order); that list has no duplicates; and merging one more document keeps the list so
  far as it is and appends, in order and once each, the URLs of the document that are not
  in it yet.
\<close>

theorem Merge_first_seen:
  "Version (Merge datasets) = 1
   \<and> Merge datasets = Merge (map Some (present datasets))
   \<and> Linux (Merge datasets) banner =
       (if mentions datasets banner then Some (rev (remdups (rev (offered datasets banner)))) else None)
   \<and> distinct (lookupUrls (Linux (Merge datasets)) banner)
   \<and> Linux (Merge (datasets @ [Some d])) banner =
       (case Linux d banner of
          None \<Rightarrow> Linux (Merge datasets) banner
        | Some urls \<Rightarrow>
            Some (lookupUrls (Linux (Merge datasets)) banner
                  @ rev (remdups (rev (filter (\<lambda>u. u \<notin> set (lookupUrls (Linux (Merge datasets)) banner)) urls)))))"
proof (intro conjI)
  show "Version (Merge datasets) = 1"
    by (simp add: Merge_def)
  show "Merge datasets = Merge (map Some (present datasets))"
    by (simp add: Merge_def mergeLoop_present)
  show "Linux (Merge datasets) banner =
       (if mentions datasets banner then Some (rev (remdups (rev (offered datasets banner)))) else None)"
    by (simp add: Merge_banner fresh_empty_remdups)
  show "distinct (lookupUrls (Linux (Merge datasets)) banner)"
    by (simp add: lookupUrls_Merge distinct_fresh)
  have step: "Linux (Merge (datasets @ [Some d])) = mergeRange (Linux (Merge datasets)) (Linux d)"
    by (simp add: Merge_def mergeLoop_append)
  show "Linux (Merge (datasets @ [Some d])) banner =
       (case Linux d banner of
          None \<Rightarrow> Linux (Merge datasets) banner
        | Some urls \<Rightarrow>
            Some (lookupUrls (Linux (Merge datasets)) banner
                  @ rev (remdups (rev (filter (\<lambda>u. u \<notin> set (lookupUrls (Linux (Merge datasets)) banner)) urls)))))"
    unfolding step
    by (simp add: mergeRange_def appendUnique_fresh fresh_remdups split: option.splits)
qed

theorem Merge_first_seen_witness:
  "Version (Merge [Some \<lparr>Version = 1, Linux = [''K'' \<mapsto> [''u1'', ''u2'']]\<rparr>, None,
                 Some \<lparr>Version = 7, Linux = [''K'' \<mapsto> [''u2'', ''u3'', ''u2'']]\<rparr>]) = 1
   \<and> Linux (Merge [Some \<lparr>Version = 1, Linux = [''K'' \<mapsto> [''u1'', ''u2'']]\<rparr>, None,
                 Some \<lparr>Version = 7, Linux = [''K'' \<mapsto> [''u2'', ''u3'', ''u2'']]\<rparr>]) ''K''
     = Some [''u1'', ''u2'', ''u3'']
   \<and> Linux (Merge [Some \<lparr>Version = 1, Linux = [''K'' \<mapsto> [''u1'', ''u2'']]\<rparr>, None,
                 Some \<lparr>Version = 7, Linux = [''K'' \<mapsto> [''u2'', ''u3'', ''u2'']]\<rparr>]) ''J''
     = None"
proof -
  let ?ds = "[Some \<lparr>Version = 1, Linux = [''K'' \<mapsto> [''u1'', ''u2'']]\<rparr>, None,
              Some \<lparr>Version = 7, Linux = [''K'' \<mapsto> [''u2'', ''u3'', ''u2'']]\<rparr>]"
  let ?d = "\<lparr>Version = 1, Linux = Map.empty\<rparr>"
  have v: "Version (Merge ?ds) = 1"
    using Merge_first_seen [of ?ds "''K''" ?d] by (rule conjunct1)
  have k: "Linux (Merge ?ds) ''K'' =
      (if mentions ?ds ''K'' then Some (rev (remdups (rev (offered ?ds ''K'')))) else None)"
    using Merge_first_seen [of ?ds "''K''" ?d] by blast
  have j: "Linux (Merge ?ds) ''J'' =
      (if mentions ?ds ''J'' then Some (rev (remdups (rev (offered ?ds ''J'')))) else None)"
    using Merge_first_seen [of ?ds "''J''" ?d] by blast
  show ?thesis
    unfolding v k j
    by (simp add: mentions_def offered_def present_def List.map_filter_simps lookupUrls_def)
qed

text \<open>
  Claim C8. For all documents \<open>a\<close>, \<open>b\<close>, \<open>c\<close>, merging \<open>a\<close> with the merge of \<open>b\<close> and \<open>c\<close>
  gives the same document (version and banner map) as merging the three.
\<close>

theorem Merge_assoc:
  "Merge [Some a, Some (Merge [Some b, Some c])] = Merge [Some a, Some b, Some c]"
  by (simp add: Merge_def mergeRange_assoc)

section \<open>The conditional request\<close>

lemma buildRequest_headers:
  "Header (buildRequest url meta) ''If-None-Match'' =
     (case meta of None \<Rightarrow> None | Some m \<Rightarrow> if ETag m \<noteq> [] then Some (ETag m) else None)"
  "Header (buildRequest url meta) ''If-Modified-Since'' =
     (case meta of None \<Rightarrow> None
      | Some m \<Rightarrow> if LastModified m \<noteq> [] then Some (LastModified m) else None)"
  "Header (buildRequest url meta) ''User-Agent'' = Some UserAgent"
  "Method (buildRequest url meta) = ''GET''" "URL (buildRequest url meta) = url"
  by (simp_all add: buildRequest_def Let_def split: option.splits)

text \<open>
  Claim C7. A remote fetch whose request can be built hands exactly one request to
  \<open>client.Do\<close>: a GET of the source that carries, when prior validators are supplied, a
  non-empty entity tag as \<open>If-None-Match\<close> and a non-empty last-modified string as
  \<open>If-Modified-Since\<close>, both verbatim, and neither header for a validator that is empty
  or not supplied. What the fetch returns is decided by the answer to that request:
  whenever the answer has status 304, no data, the caller's validators as they were
  passed in, \<open>modified = false\<close> and no error; an error when there is no answer; the
  decoded document with the validators of the response headers when the answer is a
  200 that decodes. \<open>FetchWithMeta\<close> on a source that is not a local path is that fetch.
\<close>

theorem fetchHTTP_conditional:
  "(NewRequest sys url \<longrightarrow> fst (fetchHTTPWithMeta sys now idx url meta) = [buildRequest url meta])
   \<and> (\<not> isLocalPath url \<longrightarrow>
        FetchWithMeta sys w idx url meta = fetchHTTPWithMeta sys (clock w) idx url meta)
   \<and> Method (buildRequest url meta) = ''GET'' \<and> URL (buildRequest url meta) = url
   \<and> (meta = Some m \<and> ETag m \<noteq> [] \<longrightarrow>
        Header (buildRequest url meta) ''If-None-Match'' = Some (ETag m))
   \<and> (meta = Some m \<and> LastModified m \<noteq> [] \<longrightarrow>
        Header (buildRequest url meta) ''If-Modified-Since'' = Some (LastModified m))
   \<and> (meta = None \<or> (meta = Some m \<and> ETag m = []) \<longrightarrow>
        Header (buildRequest url meta) ''If-None-Match'' = None)
   \<and> (meta = None \<or> (meta = Some m \<and> LastModified m = []) \<longrightarrow>
        Header (buildRequest url meta) ''If-Modified-Since'' = None)
   \<and> (NewRequest sys url \<and> Do sys idx (buildRequest url meta) = Some resp
        \<and> StatusCode resp = 304 \<longrightarrow>
        snd (fetchHTTPWithMeta sys now idx url meta) = (None, meta, False, None))
   \<and> (NewRequest sys url \<and> Do sys idx (buildRequest url meta) = None \<longrightarrow>
        snd (fetchHTTPWithMeta sys now idx url meta) = (None, None, False, Some ExecutingRequest))
   \<and> (NewRequest sys url \<and> Do sys idx (buildRequest url meta) = Some resp
        \<and> StatusCode resp = 200 \<and> Decode sys (Body resp) = Some data \<longrightarrow>
        snd (fetchHTTPWithMeta sys now idx url meta) =
          (Some data,
           Some \<lparr>ETag = headerGet (RespHeader resp) ''ETag'',
                 LastModified = headerGet (RespHeader resp) ''Last-Modified'', UpdatedAt = now\<rparr>,
           True, None))"
  by (auto simp: buildRequest_headers fetchHTTPWithMeta_def FetchWithMeta_def Let_def)

text \<open>
  Two fetches from the server of \<open>TestFetchHTTPWithETag\<close>, which answers 304 only to a
  request that carries its entity tag: with the validators of an earlier fetch the
  request carries both headers and the fetch returns the validators unchanged; without
  validators the request carries neither and the fetch returns the document.
\<close>

theorem fetchHTTP_conditional_witness:
  \<open>fst (FetchWithMeta (quietSys\<lparr>Do := etagServer, Decode := sampleUnmarshal\<rparr>)
          \<lparr>files = Map.empty, clock = 5000\<rparr> 0 ''https://a.example/banners.json'' (Some priorA))
      = [buildRequest ''https://a.example/banners.json'' (Some priorA)]
   \<and> Header (buildRequest ''https://a.example/banners.json'' (Some priorA)) ''If-None-Match''
      = Some ''"abc"''
   \<and> Header (buildRequest ''https://a.example/banners.json'' (Some priorA)) ''If-Modified-Since''
      = Some ''Wed, 01 Jan 2025 00:00:00 GMT''
   \<and> snd (FetchWithMeta (quietSys\<lparr>Do := etagServer, Decode := sampleUnmarshal\<rparr>)
          \<lparr>files = Map.empty, clock = 5000\<rparr> 0 ''https://a.example/banners.json'' (Some priorA))
      = (None, Some priorA, False, None)
   \<and> fst (FetchWithMeta (quietSys\<lparr>Do := etagServer, Decode := sampleUnmarshal\<rparr>)
          \<lparr>files = Map.empty, clock = 5000\<rparr> 0 ''https://a.example/banners.json'' None)
      = [buildRequest ''https://a.example/banners.json'' None]
   \<and> Header (buildRequest ''https://a.example/banners.json'' None) ''If-None-Match'' = None
   \<and> snd (FetchWithMeta (quietSys\<lparr>Do := etagServer, Decode := sampleUnmarshal\<rparr>)
          \<lparr>files = Map.empty, clock = 5000\<rparr> 0 ''https://a.example/banners.json'' None)
      = (Some \<lparr>Version = 1, Linux = [''K'' \<mapsto> [''u1'']]\<rparr>,
         Some \<lparr>ETag = ''"abc"'', LastModified = [], UpdatedAt = 5000\<rparr>, True, None)\<close>
proof -
  define url where "url = ''https://a.example/banners.json''"
  define S where "S = quietSys\<lparr>Do := etagServer, Decode := sampleUnmarshal\<rparr>"
  define w where "w = \<lparr>files = Map.empty, clock = 5000 :: int\<rparr>"
  define r304 where "r304 = \<lparr>StatusCode = 304, RespHeader = Map.empty, Body = []\<rparr>"
  define r200 where
    \<open>r200 = \<lparr>StatusCode = 200, RespHeader = [''ETag'' \<mapsto> ''"abc"''],
              Body = ''{"version":1,"linux":{"K":["u1"]}}''\<rparr>\<close>
  define doc where "doc = \<lparr>Version = 1, Linux = [''K'' \<mapsto> [''u1'']]\<rparr>"
  have v1: \<open>ETag priorA = ''"abc"''\<close> and v2: "LastModified priorA = ''Wed, 01 Jan 2025 00:00:00 GMT''"
    by (simp_all add: priorA_def)
  have e: "ETag priorA \<noteq> []" and l: "LastModified priorA \<noteq> []"
    by (simp_all add: priorA_def)
  have n: "NewRequest S url" and c: "clock w = 5000"
    by (simp_all add: S_def quietSys_def w_def)
  have r: "\<not> isLocalPath url"
    by (simp add: isLocalPath_def url_def)
  note A = fetchHTTP_conditional [of S url 5000 0 "Some priorA" w priorA r304 doc]
  note B = fetchHTTP_conditional [of S url 5000 0 None w priorA r200 doc]
  from A e have h1: "Header (buildRequest url (Some priorA)) ''If-None-Match'' = Some (ETag priorA)"
    by blast
  from A l have h2: "Header (buildRequest url (Some priorA)) ''If-Modified-Since'' = Some (LastModified priorA)"
    by blast
  from B have h3: "Header (buildRequest url None) ''If-None-Match'' = None"
    by blast
  have d1: "Do S 0 (buildRequest url (Some priorA)) = Some r304"
    by (simp add: S_def etagServer_def h1 v1 r304_def)
  have d2: "Do S 0 (buildRequest url None) = Some r200"
    by (simp add: S_def etagServer_def h3 r200_def)
  have dec: "Decode S (Body r200) = Some doc"
    by (simp add: S_def r200_def doc_def sampleUnmarshal_def)
  have s1: "StatusCode r304 = 304" and s2: "StatusCode r200 = 200"
    by (simp_all add: r304_def r200_def)
  from A r have fa: "FetchWithMeta S w 0 url (Some priorA) = fetchHTTPWithMeta S (clock w) 0 url (Some priorA)"
    by blast
  from B r have fb: "FetchWithMeta S w 0 url None = fetchHTTPWithMeta S (clock w) 0 url None"
    by blast
  from A n have sa: "fst (fetchHTTPWithMeta S 5000 0 url (Some priorA)) = [buildRequest url (Some priorA)]"
    by blast
  from B n have sb: "fst (fetchHTTPWithMeta S 5000 0 url None) = [buildRequest url None]"
    by blast
  from A n d1 s1 have ra: "snd (fetchHTTPWithMeta S 5000 0 url (Some priorA)) = (None, Some priorA, False, None)"
    by blast
  from B n d2 s2 dec have rb: "snd (fetchHTTPWithMeta S 5000 0 url None) =
      (Some doc,
       Some \<lparr>ETag = headerGet (RespHeader r200) ''ETag'',
             LastModified = headerGet (RespHeader r200) ''Last-Modified'', UpdatedAt = 5000\<rparr>,
       True, None)"
    by blast
  have hd: \<open>headerGet (RespHeader r200) ''ETag'' = ''"abc"''\<close>
      "headerGet (RespHeader r200) ''Last-Modified'' = []"
    by (simp_all add: r200_def headerGet_def)
  have "fst (FetchWithMeta S w 0 url (Some priorA)) = [buildRequest url (Some priorA)]
    \<and> Header (buildRequest url (Some priorA)) ''If-None-Match'' = Some (ETag priorA)
    \<and> Header (buildRequest url (Some priorA)) ''If-Modified-Since'' = Some (LastModified priorA)
    \<and> snd (FetchWithMeta S w 0 url (Some priorA)) = (None, Some priorA, False, None)
    \<and> fst (FetchWithMeta S w 0 url None) = [buildRequest url None]
    \<and> Header (buildRequest url None) ''If-None-Match'' = None
    \<and> snd (FetchWithMeta S w 0 url None) =
        (Some doc, Some \<lparr>ETag = headerGet (RespHeader r200) ''ETag'',
             LastModified = headerGet (RespHeader r200) ''Last-Modified'', UpdatedAt = 5000\<rparr>,
         True, None)"
    unfolding fa fb c using sa sb ra rb h1 h2 h3 by blast
  then show ?thesis
    unfolding hd v1 v2 url_def S_def w_def doc_def .
qed


section \<open>Statistics and validity of the cache file\<close>

text \<open>
  Claim C10. Whenever the cache file exists, can be read and its bytes unmarshal into a
  \<open>BannerData\<close> without an error, \<open>Stats\<close> reports \<open>valid = true\<close> with the number of keys
  of the decoded \<open>linux\<close> map as \<open>entries\<close>; so \<open>entries = 0\<close> for a document without
  banners, which is what the literal \<open>null\<close> and an object without the two fields decode
  to. Nothing is asked of the decoded version: the statement holds for every \<open>Version d\<close>.
\<close>

theorem stats_valid_on_unmarshal:
  assumes "files w (CacheFile cfg) = Some f"
    and "\<not> Fails sys (ReadFileOp (CacheFile cfg))"
    and "Unmarshal sys (bytes f) = Some d"
  shows "cacheStats sys cfg w =
     \<lparr>Valid = True, Path = CacheFile cfg, Entries = card (dom (Linux d)),
      Size = length (bytes f), AgeSeconds = DurationSeconds sys (clock w - modTime f),
      StatsUpdatedAt = modTime f\<rparr>
   \<and> Valid (cacheStats sys cfg w)
   \<and> (Linux d = Map.empty \<longrightarrow> Entries (cacheStats sys cfg w) = 0)"
  using assms by (simp add: cacheStats_def os_Stat_def os_ReadFile_def)

theorem stats_valid_on_unmarshal_witness:
  \<open>Valid (cacheStats (quietSys\<lparr>Unmarshal := sampleUnmarshal\<rparr>) demoCfg (cacheHolding ''null'' 0 5))
   \<and> Entries (cacheStats (quietSys\<lparr>Unmarshal := sampleUnmarshal\<rparr>) demoCfg (cacheHolding ''null'' 0 5)) = 0
   \<and> Valid (cacheStats (quietSys\<lparr>Unmarshal := sampleUnmarshal\<rparr>) demoCfg (cacheHolding ''{}'' 0 5))
   \<and> Entries (cacheStats (quietSys\<lparr>Unmarshal := sampleUnmarshal\<rparr>) demoCfg (cacheHolding ''{}'' 0 5)) = 0
   \<and> Valid (cacheStats (quietSys\<lparr>Unmarshal := sampleUnmarshal\<rparr>) demoCfg
        (cacheHolding ''{"version":7,"linux":{"K":["u1"]}}'' 0 5))
   \<and> Entries (cacheStats (quietSys\<lparr>Unmarshal := sampleUnmarshal\<rparr>) demoCfg
        (cacheHolding ''{"version":7,"linux":{"K":["u1"]}}'' 0 5)) = 1\<close>
proof -
  let ?sys = "quietSys\<lparr>Unmarshal := sampleUnmarshal\<rparr>"
  have nofail: "\<not> Fails ?sys (ReadFileOp (CacheFile demoCfg))"
    by (simp add: quietSys_def)
  have fl: "\<And>b. files (cacheHolding b 0 5) (CacheFile demoCfg)
      = Some \<lparr>bytes = b, modTime = 0, perm = FileMode\<rparr>"
    by (simp add: cacheHolding_def demoCfg_def)
  have u1: "Unmarshal ?sys (bytes \<lparr>bytes = ''null'', modTime = 0, perm = FileMode\<rparr>)
      = Some \<lparr>Version = 0, Linux = Map.empty\<rparr>"
    by (simp add: sampleUnmarshal_def)
  have u2: "Unmarshal ?sys (bytes \<lparr>bytes = ''{}'', modTime = 0, perm = FileMode\<rparr>)
      = Some \<lparr>Version = 0, Linux = Map.empty\<rparr>"
    by (simp add: sampleUnmarshal_def)
  have u3: \<open>Unmarshal ?sys (bytes \<lparr>bytes = ''{"version":7,"linux":{"K":["u1"]}}'', modTime = 0, perm = FileMode\<rparr>)
      = Some \<lparr>Version = 7, Linux = [''K'' \<mapsto> [''u1'']]\<rparr>\<close>
    by (simp add: sampleUnmarshal_def)
  show ?thesis
    using stats_valid_on_unmarshal [of "cacheHolding ''null'' 0 5" demoCfg _ ?sys, OF fl nofail u1]
      stats_valid_on_unmarshal [of "cacheHolding ''{}'' 0 5" demoCfg _ ?sys, OF fl nofail u2]
      stats_valid_on_unmarshal [of _ demoCfg _ ?sys, OF fl nofail u3]
    by simp
qed

text \<open>
  Claim C3, as the code has it. If the cache file exists and its bytes do not unmarshal,
  \<open>Stats\<close> returns \<open>Stats{Valid: false}\<close>. \<open>IsValid\<close> never reads the file: it is true exactly
  when the age of the file is below the TTL, so it is false for such a file only once
  the file is stale. Both are total functions that return a value; neither has an error
  result to propagate.
\<close>

theorem undecodable_cache_file:
  assumes "files w (CacheFile cfg) = Some f"
    and "Unmarshal sys (bytes f) = None"
  shows "cacheStats sys cfg w = invalidStats
     \<and> Valid (cacheStats sys cfg w) = False
     \<and> IsValid cfg w = (clock w - modTime f < TTL cfg)"
  using assms
  by (simp add: cacheStats_def IsValid_def os_Stat_def os_ReadFile_def invalidStats_def)

theorem undecodable_cache_file_witness:
  "Valid (cacheStats (quietSys\<lparr>Unmarshal := sampleUnmarshal\<rparr>) demoCfg
       (cacheHolding ''invalid json'' 0 (48 * 3600 * 1000000000))) = False
   \<and> IsValid demoCfg (cacheHolding ''invalid json'' 0 (48 * 3600 * 1000000000)) = False"
proof -
  let ?sys = "quietSys\<lparr>Unmarshal := sampleUnmarshal\<rparr>"
  let ?w = "cacheHolding ''invalid json'' 0 (48 * 3600 * 1000000000)"
  have fl: "files ?w (CacheFile demoCfg) = Some \<lparr>bytes = ''invalid json'', modTime = 0, perm = FileMode\<rparr>"
    by (simp add: cacheHolding_def demoCfg_def)
  have u: "Unmarshal ?sys (bytes \<lparr>bytes = ''invalid json'', modTime = 0, perm = FileMode\<rparr>) = None"
    by (simp add: sampleUnmarshal_def)
  have age: "\<not> clock ?w - modTime \<lparr>bytes = ''invalid json'', modTime = 0, perm = FileMode\<rparr> < TTL demoCfg"
    by (simp add: cacheHolding_def demoCfg_def)
  from undecodable_cache_file [OF fl u] age show ?thesis
    by blast
qed

text \<open>
  The claim as stated (\<open>IsValid\<close> returns false on an undecodable file) fails on a
  fresh file holding \<open>invalid json\<close>, the content \<open>TestStats\<close> uses: \<open>Stats\<close> reports it
  invalid and \<open>IsValid\<close> returns true.
\<close>

theorem undecodable_cache_file_counterexample:
  "files (cacheHolding ''invalid json'' 0 5) (CacheFile demoCfg)
     = Some \<lparr>bytes = ''invalid json'', modTime = 0, perm = FileMode\<rparr>
   \<and> Unmarshal (quietSys\<lparr>Unmarshal := sampleUnmarshal\<rparr>) ''invalid json'' = None
   \<and> Valid (cacheStats (quietSys\<lparr>Unmarshal := sampleUnmarshal\<rparr>) demoCfg
         (cacheHolding ''invalid json'' 0 5)) = False
   \<and> IsValid demoCfg (cacheHolding ''invalid json'' 0 5) = True"
  by (simp add: cacheHolding_def demoCfg_def sampleUnmarshal_def IsValid_def os_Stat_def
      cacheStats_def os_ReadFile_def invalidStats_def quietSys_def)

section \<open>The lock manager\<close>

lemma acquireLock_Locked:
  "fst (acquireLock sys cfg w) = Some ErrLocked \<Longrightarrow> lockIsYoung cfg w \<and> snd (acquireLock sys cfg w) = w"
  by (auto simp: acquireLock_def os_MkdirAll_def os_Stat_def os_WriteFile_def lockIsYoung_def
      split: option.splits if_splits sum.splits)

lemma acquireLock_young:
  "\<not> Fails sys (MkdirAllOp (CacheDir cfg)) \<Longrightarrow> lockIsYoung cfg w \<Longrightarrow>
     acquireLock sys cfg w = (Some ErrLocked, w)"
  by (auto simp: acquireLock_def os_MkdirAll_def os_Stat_def lockIsYoung_def split: option.splits)

lemma acquireLock_free:
  assumes "\<not> Fails sys (MkdirAllOp (CacheDir cfg))"
    and "\<not> Fails sys (RemoveOp (LockFile cfg))"
    and "\<not> Fails sys (WriteFileOp (LockFile cfg))"
    and "\<not> lockIsYoung cfg w"
  shows "acquireLock sys cfg w =
     (None, w\<lparr>files := (files w)(LockFile cfg \<mapsto>
        \<lparr>bytes = Itoa (Getpid sys), modTime = clock w, perm = FileMode\<rparr>)\<rparr>)"
  using assms
  by (auto simp: acquireLock_def os_MkdirAll_def os_Stat_def os_WriteFile_def os_Remove_def
      ignoring_def lockIsYoung_def split: option.splits)

lemma releaseLock_removes:
  "\<not> Fails sys (RemoveOp (LockFile cfg)) \<Longrightarrow>
     releaseLock sys cfg w = w\<lparr>files := (files w)(LockFile cfg := None)\<rparr>"
  by (auto simp: releaseLock_def os_Remove_def ignoring_def fun_upd_idem split: option.splits)

lemma releaseLock_twice: "releaseLock sys cfg (releaseLock sys cfg w) = releaseLock sys cfg w"
  by (auto simp: releaseLock_def os_Remove_def ignoring_def split: option.splits)

text \<open>
  Claim C5. Provided the cache directory can be created, \<open>acquireLock\<close> fails with
  \<open>ErrLocked\<close> if and only if the lock file exists and its modification time is less than
  five minutes old; it returns \<open>ErrLocked\<close> in no other case, and changes nothing when it
  does. If the lock file is absent or stale and neither the directory creation, the
  removal nor the write fails, \<open>acquireLock\<close> succeeds and leaves a lock file that holds
  the decimal process identifier, is created with mode 0644 (420) and has the current
  time as its modification time, a stale lock being removed first. \<open>releaseLock\<close>
  removes the lock file whatever it holds (when the removal does not fail), and a second
  release changes nothing.
\<close>

theorem lock_manager:
  "(\<not> Fails sys (MkdirAllOp (CacheDir cfg)) \<longrightarrow>
      (fst (acquireLock sys cfg w) = Some ErrLocked) = lockIsYoung cfg w)
   \<and> (fst (acquireLock sys cfg w) = Some ErrLocked \<longrightarrow>
        lockIsYoung cfg w \<and> snd (acquireLock sys cfg w) = w)
   \<and> (\<not> Fails sys (MkdirAllOp (CacheDir cfg)) \<and> \<not> Fails sys (RemoveOp (LockFile cfg))
        \<and> \<not> Fails sys (WriteFileOp (LockFile cfg)) \<and> \<not> lockIsYoung cfg w \<longrightarrow>
      acquireLock sys cfg w =
        (None, w\<lparr>files := (files w)(LockFile cfg \<mapsto>
           \<lparr>bytes = Itoa (Getpid sys), modTime = clock w, perm = FileMode\<rparr>)\<rparr>))
   \<and> (\<not> Fails sys (RemoveOp (LockFile cfg)) \<longrightarrow>
        releaseLock sys cfg w = w\<lparr>files := (files w)(LockFile cfg := None)\<rparr>)
   \<and> releaseLock sys cfg (releaseLock sys cfg w) = releaseLock sys cfg w
   \<and> lockIsYoung cfg w =
       (\<exists>info. files w (LockFile cfg) = Some info \<and> clock w - modTime info < 5 * 60 * 1000000000)
   \<and> FileMode = 420"
proof (intro conjI impI)
  assume m: "\<not> Fails sys (MkdirAllOp (CacheDir cfg))"
  show "(fst (acquireLock sys cfg w) = Some ErrLocked) = lockIsYoung cfg w"
    using acquireLock_Locked [of sys cfg w] acquireLock_young [OF m, of w] by auto
next
  assume "fst (acquireLock sys cfg w) = Some ErrLocked"
  then show "lockIsYoung cfg w" and "snd (acquireLock sys cfg w) = w"
    using acquireLock_Locked by blast+
next
  assume "\<not> Fails sys (MkdirAllOp (CacheDir cfg)) \<and> \<not> Fails sys (RemoveOp (LockFile cfg))
        \<and> \<not> Fails sys (WriteFileOp (LockFile cfg)) \<and> \<not> lockIsYoung cfg w"
  then show "acquireLock sys cfg w =
        (None, w\<lparr>files := (files w)(LockFile cfg \<mapsto>
           \<lparr>bytes = Itoa (Getpid sys), modTime = clock w, perm = FileMode\<rparr>)\<rparr>)"
    using acquireLock_free by blast
next
  assume "\<not> Fails sys (RemoveOp (LockFile cfg))"
  then show "releaseLock sys cfg w = w\<lparr>files := (files w)(LockFile cfg := None)\<rparr>"
    by (rule releaseLock_removes)
next
  show "releaseLock sys cfg (releaseLock sys cfg w) = releaseLock sys cfg w"
    by (rule releaseLock_twice)
next
  show "lockIsYoung cfg w =
       (\<exists>info. files w (LockFile cfg) = Some info \<and> clock w - modTime info < 5 * 60 * 1000000000)"
    by (simp add: lockIsYoung_def LockTimeout_def split: option.splits)
next
  show "FileMode = 420"
    by (simp add: FileMode_def)
qed

theorem lock_manager_witness:
  "fst (acquireLock quietSys demoCfg (lockHeld 970000000000 1000000000000)) = Some ErrLocked
   \<and> acquireLock quietSys demoCfg (lockHeld 400000000000 1000000000000) =
       (None, \<lparr>files = [''/c/.lock'' \<mapsto> \<lparr>bytes = ''4242'', modTime = 1000000000000, perm = 420\<rparr>],
               clock = 1000000000000\<rparr>)
   \<and> acquireLock quietSys demoCfg \<lparr>files = Map.empty, clock = 7\<rparr> =
       (None, \<lparr>files = [''/c/.lock'' \<mapsto> \<lparr>bytes = ''4242'', modTime = 7, perm = 420\<rparr>], clock = 7\<rparr>)
   \<and> files (releaseLock quietSys demoCfg (lockHeld 970000000000 1000000000000)) ''/c/.lock'' = None"
proof -
  let ?young = "lockHeld 970000000000 1000000000000"
  let ?stale = "lockHeld 400000000000 1000000000000"
  let ?none = "\<lparr>files = Map.empty, clock = 7\<rparr>"
  have ok: "\<not> Fails quietSys (MkdirAllOp (CacheDir demoCfg))"
    "\<not> Fails quietSys (RemoveOp (LockFile demoCfg))"
    "\<not> Fails quietSys (WriteFileOp (LockFile demoCfg))"
    by (simp_all add: quietSys_def)
  have y: "lockIsYoung demoCfg ?young" and s: "\<not> lockIsYoung demoCfg ?stale"
    and n: "\<not> lockIsYoung demoCfg ?none"
    by (simp_all add: lockIsYoung_def lockHeld_def demoCfg_def LockTimeout_def)
  have pid: "Itoa (Getpid quietSys) = ''4242''"
    by (simp add: Itoa_def quietSys_def digits.simps)
  have a: "fst (acquireLock quietSys demoCfg ?young) = Some ErrLocked"
    using lock_manager [of quietSys demoCfg ?young] ok y by blast
  have b: "acquireLock quietSys demoCfg ?stale =
      (None, ?stale\<lparr>files := (files ?stale)(LockFile demoCfg \<mapsto>
         \<lparr>bytes = Itoa (Getpid quietSys), modTime = clock ?stale, perm = FileMode\<rparr>)\<rparr>)"
    using lock_manager [of quietSys demoCfg ?stale] ok s by blast
  have c: "acquireLock quietSys demoCfg ?none =
      (None, ?none\<lparr>files := (files ?none)(LockFile demoCfg \<mapsto>
         \<lparr>bytes = Itoa (Getpid quietSys), modTime = clock ?none, perm = FileMode\<rparr>)\<rparr>)"
    using lock_manager [of quietSys demoCfg ?none] ok n by blast
  have d: "releaseLock quietSys demoCfg ?young = ?young\<lparr>files := (files ?young)(LockFile demoCfg := None)\<rparr>"
    using lock_manager [of quietSys demoCfg ?young] ok by blast
  show ?thesis
    unfolding a b c d pid
    by (simp add: lockHeld_def demoCfg_def FileMode_def)
qed

section \<open>Update and SmartUpdate\<close>

subsection \<open>The sample machine\<close>

lemma sample_paths:
  "CacheFile demoCfg = ''/c/banners.json''" "LockFile demoCfg = ''/c/.lock''"
  "metaFile (sampleSys server) demoCfg = ''/c/meta.json''" "CacheDir demoCfg = ''/c''"
  "CacheFile cfgAB = ''/c/banners.json''" "LockFile cfgAB = ''/c/.lock''"
  "metaFile (sampleSys server) cfgAB = ''/c/meta.json''" "CacheDir cfgAB = ''/c''"
  by (simp_all add: demoCfg_def cfgAB_def metaFile_def sampleSys_def quietSys_def)

lemma sample_fields:
  "NewRequest (sampleSys server) url" "Do (sampleSys server) = server"
  "Decode (sampleSys server) = sampleDecode" "Unmarshal (sampleSys server) = sampleDecode"
  "UnmarshalMeta (sampleSys server) = sampleUnmarshalMeta"
  "MarshalIndent (sampleSys server) = sampleMarshalIndent"
  "Encode (sampleSys server) = sampleEncode" "Getpid (sampleSys server) = 4242"
  "Elapsed (sampleSys server) = 0"
  by (simp_all add: sampleSys_def quietSys_def)

lemma sample_no_faults: "Fails (sampleSys server) op = False"
  by (simp add: sampleSys_def quietSys_def)

lemma sample_lock:
  "acquireLock (sampleSys server) cfg (worldWith cache sidecar now) =
     (None, (worldWith cache sidecar now)\<lparr>files := (files (worldWith cache sidecar now))(LockFile cfg \<mapsto>
        \<lparr>bytes = ''4242'', modTime = now, perm = FileMode\<rparr>)\<rparr>)"
  if "LockFile cfg = ''/c/.lock''"
proof -
  have pid: "Itoa (Getpid (sampleSys server)) = ''4242''"
    by (simp add: Itoa_def sampleSys_def quietSys_def digits.simps)
  have "\<not> lockIsYoung cfg (worldWith cache sidecar now)"
    by (simp add: lockIsYoung_def worldWith_def that)
  then show ?thesis
    using acquireLock_free [of "sampleSys server" cfg "worldWith cache sidecar now"]
    by (simp add: sample_no_faults pid worldWith_def)
qed

lemma remote_sources: "\<not> isLocalPath srcA" "\<not> isLocalPath srcB"
  by (simp_all add: isLocalPath_def srcA_def srcB_def)

lemma sample_fetch_fresh:
  "fetchWorker (sampleSys v1Server) w None (i, srcA) =
     \<lparr>Source = srcA, Data = Some docK, Meta = Some \<lparr>ETag = ''v1'', LastModified = [], UpdatedAt = clock w\<rparr>,
      Modified = True, Err = None\<rparr>"
  by (simp add: fetchWorker_def FetchWithMeta_def remote_sources fetchHTTPWithMeta_def
      buildRequest_def sampleSys_def quietSys_def v1Server_def sampleDecode_def headerGet_def
      UserAgent_def)





lemma sample_writeWorks: "writeWorks (sampleSys server) cfg"
  by (simp add: writeWorks_def sample_no_faults)

lemma Merge_docK: "sampleEncode (Merge [Some docK]) = Some (docKText @ [CHR 0x0A])"
  "sampleEncode (Merge [Some docK, Some docK]) = Some (docKText @ [CHR 0x0A])"
  by (simp_all add: sampleEncode_def Merge_def mergeRange_def lookupUrls_def appendUnique_def docK_def)

lemma sidecarText_differs:
  "sidecarText ''v1'' \<noteq> sidecarText ''v0''" "sidecarText ''v0'' \<noteq> sidecarText ''v1''"
  by (simp_all add: sidecarText_def)

lemma sample_loadMeta:
  "files w ''/c/meta.json'' = Some (sidecarFile ''v0'') \<Longrightarrow>
     loadMeta (sampleSys server) demoCfg w = [srcA \<mapsto> metaTagged ''v0'']"
  "files w ''/c/meta.json'' = Some (sidecarFile ''v1'') \<Longrightarrow>
     loadMeta (sampleSys server) demoCfg w = [srcA \<mapsto> metaTagged ''v1'']"
  by (simp_all add: loadMeta_def os_ReadFile_def sample_paths sample_no_faults sidecarFile_def
      sample_fields sampleUnmarshalMeta_def sidecarText_differs)

lemma sample_sidecar_paths:
  "metaFile (sampleSys server) demoCfg \<noteq> LockFile demoCfg"
  "metaFile (sampleSys server) demoCfg \<noteq> CacheFile demoCfg"
  "metaFile (sampleSys server) demoCfg \<noteq> CacheFile demoCfg @ ''.tmp''"
  "LockFile demoCfg \<noteq> CacheFile demoCfg"
  by (simp_all add: sample_paths)

lemma sample_fetch_304:
  "fetchWorker (sampleSys v1Server) w (Some [srcA \<mapsto> metaTagged ''v1'']) (i, srcA) =
     \<lparr>Source = srcA, Data = None, Meta = Some (metaTagged ''v1''), Modified = False, Err = None\<rparr>"
  by (simp add: fetchWorker_def FetchWithMeta_def remote_sources fetchHTTPWithMeta_def
      buildRequest_def sample_fields v1Server_def metaTagged_def)

lemma sample_existing:
  "files w ''/c/banners.json'' = Some (cacheFileAt t) \<Longrightarrow>
     loadExistingBanners (sampleSys server) demoCfg w = Some docK"
  by (simp add: loadExistingBanners_def os_ReadFile_def sample_paths sample_no_faults
      sample_fields sampleDecode_def cacheFileAt_def)

lemma sample_sources: "Sources demoCfg = [srcA]"
  by (simp add: demoCfg_def srcA_def)

lemma sample_TTL: "TTL demoCfg = 86400000000000"
  by (simp add: demoCfg_def)

subsection \<open>What each step changes\<close>

lemma ignoring_Remove_files:
  "p \<noteq> name \<Longrightarrow> files (ignoring w (os_Remove sys w name)) p = files w p"
  by (simp add: ignoring_def os_Remove_def split: option.splits)

lemma ignoring_Remove_clock: "clock (ignoring w (os_Remove sys w name)) = clock w"
  by (simp add: ignoring_def os_Remove_def split: option.splits)

lemma acquireLock_files:
  "p \<noteq> LockFile cfg \<Longrightarrow> files (snd (acquireLock sys cfg w)) p = files w p"
  by (auto simp: acquireLock_def os_MkdirAll_def os_Stat_def os_WriteFile_def os_Remove_def
      ignoring_def split: option.splits)

lemma acquireLock_clock: "clock (snd (acquireLock sys cfg w)) = clock w"
  by (auto simp: acquireLock_def os_MkdirAll_def os_Stat_def os_WriteFile_def os_Remove_def
      ignoring_def split: option.splits)

lemma releaseLock_files:
  "p \<noteq> LockFile cfg \<Longrightarrow> files (releaseLock sys cfg w) p = files w p"
  by (simp add: releaseLock_def ignoring_Remove_files)

lemma releaseLock_clock: "clock (releaseLock sys cfg w) = clock w"
  by (simp add: releaseLock_def ignoring_Remove_clock)

lemma FetchAllWithMeta_world:
  "snd (FetchAllWithMeta sys w sources meta) = w\<lparr>clock := clock w + Elapsed sys\<rparr>"
  by (simp add: FetchAllWithMeta_def)

lemma saveMeta_files:
  "p \<noteq> metaFile sys cfg \<Longrightarrow> files (snd (saveMeta sys cfg w m)) p = files w p"
  by (simp add: saveMeta_def os_WriteFile_def split: option.splits)

lemma saveMeta_clock: "clock (snd (saveMeta sys cfg w m)) = clock w"
  by (simp add: saveMeta_def os_WriteFile_def split: option.splits)

lemma writeCache_files:
  "p \<noteq> CacheFile cfg \<Longrightarrow> p \<noteq> CacheFile cfg @ ''.tmp'' \<Longrightarrow>
     files (snd (writeCache sys cfg w d)) p = files w p"
  by (auto simp: writeCache_def os_MkdirAll_def openTrunc_def encodeInto_def os_Rename_def
      os_Remove_def ignoring_def Let_def split: option.splits)

lemma writeCache_clock: "clock (snd (writeCache sys cfg w d)) = clock w"
  by (auto simp: writeCache_def os_MkdirAll_def openTrunc_def encodeInto_def os_Rename_def
      os_Remove_def ignoring_def Let_def split: option.splits)


lemma writeCache_publishes:
  assumes "writeWorks sys cfg" and "Encode sys d = Some b"
  shows "fst (writeCache sys cfg w d) = None"
    and "files (snd (writeCache sys cfg w d)) (CacheFile cfg) =
      Some \<lparr>bytes = b, modTime = clock w,
            perm = (case files w (CacheFile cfg @ ''.tmp'') of None \<Rightarrow> FileMode | Some f \<Rightarrow> perm f)\<rparr>"
    and "files (snd (writeCache sys cfg w d)) (CacheFile cfg @ ''.tmp'') = None"
  using assms
  by (auto simp: writeWorks_def writeCache_def os_MkdirAll_def openTrunc_def encodeInto_def
      os_Rename_def Let_def split: option.splits)


lemma survivors_none: "(survivors results = []) = (\<forall>r\<in>set results. Err r \<noteq> None)"
  by (induction results) auto

lemma FetchAll_results:
  "FetchAll sys w sources = (fst (FetchAll sys w sources), w\<lparr>clock := clock w + Elapsed sys\<rparr>)"
  by (simp add: FetchAll_def FetchAllWithMeta_def)


lemma Update_forced:
  assumes "acquireLock sys cfg w = (None, w1)"
  shows "Update sys cfg w True =
     (if \<forall>r\<in>set (fst (FetchAll sys w1 (Sources cfg))). Err r \<noteq> None
      then (Some AllSourcesFailed, releaseLock sys cfg (w1\<lparr>clock := clock w1 + Elapsed sys\<rparr>))
      else (fst (writeCache sys cfg (w1\<lparr>clock := clock w1 + Elapsed sys\<rparr>)
                   (Merge (survivors (fst (FetchAll sys w1 (Sources cfg)))))),
            releaseLock sys cfg
              (snd (writeCache sys cfg (w1\<lparr>clock := clock w1 + Elapsed sys\<rparr>)
                   (Merge (survivors (fst (FetchAll sys w1 (Sources cfg)))))))))"
proof -
  have "updateLocked sys cfg w1 =
      (if \<forall>r\<in>set (fst (FetchAll sys w1 (Sources cfg))). Err r \<noteq> None
       then (Some AllSourcesFailed, w1\<lparr>clock := clock w1 + Elapsed sys\<rparr>)
       else writeCache sys cfg (w1\<lparr>clock := clock w1 + Elapsed sys\<rparr>)
              (Merge (survivors (fst (FetchAll sys w1 (Sources cfg))))))"
    unfolding updateLocked_def
    by (subst FetchAll_results) (simp add: survivors_none Let_def)
  then show ?thesis
    by (auto simp: Update_def assms case_prod_beta)
qed



subsection \<open>The loop of SmartUpdate\<close>


lemma gather_anyModified:
  "fst (snd (gather existing meta rs (ds, am, nm)))
     = (am \<or> (\<exists>r\<in>set rs. Err r = None \<and> Modified r \<and> Data r \<noteq> None))"
  by (induction rs arbitrary: ds am nm) (auto simp: Let_def split: option.splits)



lemma FetchAllWithMeta_results:
  "FetchAllWithMeta sys w sources meta
     = (fst (FetchAllWithMeta sys w sources meta), w\<lparr>clock := clock w + Elapsed sys\<rparr>)"
  by (simp add: FetchAllWithMeta_def)


lemma smartUpdateLocked_unfold:
  fixes sys cfg w1
  defines "meta \<equiv> loadMeta sys cfg w1"
    and "w2 \<equiv> w1\<lparr>clock := clock w1 + Elapsed sys\<rparr>"
  defines "results \<equiv> fst (FetchAllWithMeta sys w1 (Sources cfg) (Some meta))"
  defines "G \<equiv> gather (loadExistingBanners sys cfg w2) meta results ([], False, Map.empty)"
  defines "w3 \<equiv> snd (saveMeta sys cfg w2 (snd (snd G)))"
  shows "smartUpdateLocked sys cfg w1 =
     (if \<not> fst (snd G) \<and> IsValid cfg w3 then ((False, None), w3)
      else if fst G = [] then ((False, Some AllSourcesFailed), w3)
      else (case writeCache sys cfg w3 (Merge (fst G)) of
              (Some e, w4) \<Rightarrow> ((False, Some e), w4)
            | (None, w4) \<Rightarrow> ((fst (snd G), None), w4)))"
proof -
  obtain r w4 where wc: "writeCache sys cfg w3 (Merge (fst G)) = (r, w4)"
    by (cases "writeCache sys cfg w3 (Merge (fst G))")
  have "smartUpdateLocked sys cfg w1 =
     (if \<not> fst (snd G) \<and> IsValid cfg w3 then ((False, None), w3)
      else if length (fst G) = 0 then ((False, Some AllSourcesFailed), w3)
      else (case writeCache sys cfg w3 (Merge (fst G)) of
              (Some e, w4) \<Rightarrow> ((False, Some e), w4)
            | (None, w4) \<Rightarrow> ((fst (snd G), None), w4)))"
    unfolding smartUpdateLocked_def Let_def FetchAllWithMeta_world
      meta_def [symmetric] w2_def [symmetric]
    unfolding case_prod_beta [of _ "FetchAllWithMeta sys w1 (Sources cfg) (Some meta)"]
      FetchAllWithMeta_world results_def [symmetric] w2_def [symmetric]
    unfolding case_prod_beta [of _ "gather (loadExistingBanners sys cfg w2) meta results ([], False, Map.empty)"]
      G_def [symmetric]
    by (cases G) (simp add: w3_def split: prod.splits option.splits)
  then show ?thesis
    by simp
qed

lemma smartUpdateLocked_files:
  assumes "p \<noteq> CacheFile cfg" and "p \<noteq> CacheFile cfg @ ''.tmp''" and "p \<noteq> metaFile sys cfg"
  shows "files (snd (smartUpdateLocked sys cfg w1)) p = files w1 p"
  using assms
  by (simp add: smartUpdateLocked_unfold case_prod_beta writeCache_files saveMeta_files
      split: option.splits)



lemma SmartUpdate_locked:
  "acquireLock sys cfg w = (None, w1) \<Longrightarrow>
     SmartUpdate sys cfg w =
       (fst (smartUpdateLocked sys cfg w1), releaseLock sys cfg (snd (smartUpdateLocked sys cfg w1)))"
  by (simp add: SmartUpdate_def case_prod_beta)

text \<open>
  Claim C2, as the code has it. After a \<open>SmartUpdate\<close> that took the lock, in which no
  result reports modified, and provided the cache file is still fresh when \<open>IsValid\<close> is
  asked after the fetches (its age then, \<open>now + elapsed - mtime\<close>, is below the TTL), the
  call returns \<open>(false, nil)\<close> and the cache file is the file it was: not rewritten,
  modification time unchanged.
\<close>

theorem smartUpdate_not_modified:
  fixes sys cfg w w1 f
  defines "results \<equiv> fst (FetchAllWithMeta sys w1 (Sources cfg) (Some (loadMeta sys cfg w1)))"
  assumes lock: "acquireLock sys cfg w = (None, w1)"
    and paths: "LockFile cfg \<noteq> CacheFile cfg" "metaFile sys cfg \<noteq> CacheFile cfg"
    and nomod: "\<forall>r\<in>set results. \<not> Modified r"
    and fresh: "files w (CacheFile cfg) = Some f" "clock w + Elapsed sys - modTime f < TTL cfg"
  shows "fst (SmartUpdate sys cfg w) = (False, None)
     \<and> files (snd (SmartUpdate sys cfg w)) (CacheFile cfg) = Some f"
proof -
  let ?w2 = "w1\<lparr>clock := clock w1 + Elapsed sys\<rparr>"
  let ?G = "gather (loadExistingBanners sys cfg ?w2) (loadMeta sys cfg w1) results ([], False, Map.empty)"
  let ?w3 = "snd (saveMeta sys cfg ?w2 (snd (snd ?G)))"
  have w1f: "files w1 (CacheFile cfg) = Some f" and w1c: "clock w1 = clock w"
    using acquireLock_files [of "CacheFile cfg" cfg sys w] acquireLock_clock [of sys cfg w]
      paths(1) lock fresh(1)
    by simp_all
  have nm: "\<not> fst (snd ?G)"
    using nomod by (simp add: gather_anyModified)
  have w3f: "files ?w3 (CacheFile cfg) = Some f"
    using paths(2) by (simp add: saveMeta_files w1f)
  have w3c: "clock ?w3 = clock w + Elapsed sys"
    by (simp add: saveMeta_clock w1c)
  have valid: "IsValid cfg ?w3"
    using fresh(2) by (simp add: IsValid_def os_Stat_def w3f w3c)
  have "smartUpdateLocked sys cfg w1 = ((False, None), ?w3)"
    using nm valid by (simp add: smartUpdateLocked_unfold results_def)
  then show ?thesis
    using paths(1) by (simp add: SmartUpdate_locked [OF lock] releaseLock_files w3f)
qed

text \<open>
  A run on a cache file written an hour ago, with a TTL of 24 hours and a server that
  answers 304.
\<close>

theorem smartUpdate_not_modified_witness:
  "fst (SmartUpdate (sampleSys v1Server) demoCfg
        (worldWith (Some (cacheFileAt 169200000000000)) (Some (sidecarFile ''v1'')) 172800000000000))
      = (False, None)
   \<and> files (snd (SmartUpdate (sampleSys v1Server) demoCfg
        (worldWith (Some (cacheFileAt 169200000000000)) (Some (sidecarFile ''v1'')) 172800000000000)))
        ''/c/banners.json''
      = Some (cacheFileAt 169200000000000)"
proof -
  define S where "S = sampleSys v1Server"
  define now :: int where "now = 172800000000000"
  define w where "w = worldWith (Some (cacheFileAt 169200000000000)) (Some (sidecarFile ''v1'')) now"
  define w1 where "w1 = w\<lparr>files := (files w)(LockFile demoCfg \<mapsto> \<lparr>bytes = ''4242'', modTime = now, perm = FileMode\<rparr>)\<rparr>"
  have lock: "acquireLock S demoCfg w = (None, w1)"
    unfolding S_def w_def w1_def by (simp add: sample_lock sample_paths)
  have paths: "LockFile demoCfg \<noteq> CacheFile demoCfg" "metaFile S demoCfg \<noteq> CacheFile demoCfg"
    unfolding S_def by (simp_all add: sample_paths)
  have w1f: "files w1 ''/c/meta.json'' = Some (sidecarFile ''v1'')"
    unfolding w1_def w_def by (simp add: worldWith_def sample_paths)
  have m: "loadMeta S demoCfg w1 = [srcA \<mapsto> metaTagged ''v1'']"
    unfolding S_def by (rule sample_loadMeta(2)) (rule w1f)
  have r: "fst (FetchAllWithMeta S w1 (Sources demoCfg) (Some [srcA \<mapsto> metaTagged ''v1'']))
      = [\<lparr>Source = srcA, Data = None, Meta = Some (metaTagged ''v1''), Modified = False, Err = None\<rparr>]"
    unfolding S_def by (simp add: FetchAllWithMeta_def sample_sources sample_fetch_304)
  have nomod: "\<forall>r\<in>set (fst (FetchAllWithMeta S w1 (Sources demoCfg) (Some (loadMeta S demoCfg w1)))). \<not> Modified r"
    unfolding m r by simp
  have fresh: "files w (CacheFile demoCfg) = Some (cacheFileAt 169200000000000)"
    "clock w + Elapsed S - modTime (cacheFileAt 169200000000000) < TTL demoCfg"
    unfolding w_def S_def now_def
    by (simp_all add: worldWith_def sample_paths sample_fields cacheFileAt_def sample_TTL)
  from smartUpdate_not_modified [OF lock paths nomod fresh]
  show ?thesis
    unfolding S_def w_def now_def sample_paths .
qed

text \<open>
  The claim as stated, without the condition on freshness, fails on a cache file that is
  48 hours old: the one source answers 304 with no error and nothing modified, the call
  returns \<open>(false, nil)\<close>, and yet the cache file has been rewritten from the cached
  document; its modification time moves from 0 to the time of the call.
\<close>

theorem smartUpdate_not_modified_counterexample:
  "map Err (fst (FetchAllWithMeta (sampleSys v1Server)
        (snd (acquireLock (sampleSys v1Server) demoCfg
           (worldWith (Some (cacheFileAt 0)) (Some (sidecarFile ''v1'')) 172800000000000)))
        (Sources demoCfg) (Some [srcA \<mapsto> metaTagged ''v1''])))
      = [None]
   \<and> map Modified (fst (FetchAllWithMeta (sampleSys v1Server)
        (snd (acquireLock (sampleSys v1Server) demoCfg
           (worldWith (Some (cacheFileAt 0)) (Some (sidecarFile ''v1'')) 172800000000000)))
        (Sources demoCfg) (Some [srcA \<mapsto> metaTagged ''v1''])))
      = [False]
   \<and> fst (SmartUpdate (sampleSys v1Server) demoCfg
        (worldWith (Some (cacheFileAt 0)) (Some (sidecarFile ''v1'')) 172800000000000))
      = (False, None)
   \<and> map_option modTime (files
        (worldWith (Some (cacheFileAt 0)) (Some (sidecarFile ''v1'')) 172800000000000)
        ''/c/banners.json'') = Some 0
   \<and> map_option modTime (files (snd (SmartUpdate (sampleSys v1Server) demoCfg
        (worldWith (Some (cacheFileAt 0)) (Some (sidecarFile ''v1'')) 172800000000000)))
        ''/c/banners.json'') = Some 172800000000000"
proof -
  define S where "S = sampleSys v1Server"
  define now :: int where "now = 172800000000000"
  define w where "w = worldWith (Some (cacheFileAt 0)) (Some (sidecarFile ''v1'')) now"
  define w1 where "w1 = w\<lparr>files := (files w)(LockFile demoCfg \<mapsto> \<lparr>bytes = ''4242'', modTime = now, perm = FileMode\<rparr>)\<rparr>"
  define M where "M = [srcA \<mapsto> metaTagged ''v1'']"
  define R where "R = [\<lparr>Source = srcA, Data = None, Meta = Some (metaTagged ''v1''), Modified = False, Err = None\<rparr>]"
  define w2 where "w2 = w1\<lparr>clock := clock w1 + Elapsed S\<rparr>"
  define w3 where "w3 = snd (saveMeta S demoCfg w2 M)"
  have lock: "acquireLock S demoCfg w = (None, w1)"
    unfolding S_def w_def w1_def by (simp add: sample_lock sample_paths)
  have w2f: "files w2 ''/c/banners.json'' = Some (cacheFileAt 0)"
      "files w2 ''/c/meta.json'' = Some (sidecarFile ''v1'')"
      "files w1 ''/c/meta.json'' = Some (sidecarFile ''v1'')"
    and w2c: "clock w2 = now"
    unfolding w2_def w1_def w_def S_def
    by (simp_all add: worldWith_def sample_paths sample_fields)
  have m: "loadMeta S demoCfg w1 = M"
    unfolding S_def M_def by (rule sample_loadMeta(2)) (rule w2f(3))
  have r: "fst (FetchAllWithMeta S w1 (Sources demoCfg) (Some M)) = R"
    unfolding S_def M_def R_def
    by (simp add: FetchAllWithMeta_def sample_sources sample_fetch_304)
  have e: "loadExistingBanners S demoCfg w2 = Some docK"
    unfolding S_def by (rule sample_existing [of _ 0]) (rule w2f(1))
  have g: "gather (Some docK) M R ([], False, Map.empty) = ([Some docK], False, M)"
    unfolding M_def R_def by simp
  have w3f: "files w3 ''/c/banners.json'' = Some (cacheFileAt 0)"
    using saveMeta_files [of "''/c/banners.json''" S demoCfg w2 M]
    unfolding w3_def S_def by (simp add: sample_paths w2f(1))
  have w3c: "clock w3 = now"
    unfolding w3_def by (simp add: saveMeta_clock w2c)
  have stale: "\<not> IsValid demoCfg w3"
    unfolding IsValid_def os_Stat_def sample_paths(1) w3f w3c
    by (simp add: cacheFileAt_def sample_TTL now_def)
  have enc: "Encode S (Merge [Some docK]) = Some (docKText @ [CHR 0x0A])"
    unfolding S_def by (simp add: sample_fields Merge_docK)
  have ww: "writeWorks S demoCfg"
    unfolding S_def by (rule sample_writeWorks)
  note pub = writeCache_publishes [OF ww enc, of w3]
  have wc: "writeCache S demoCfg w3 (Merge [Some docK]) = (None, snd (writeCache S demoCfg w3 (Merge [Some docK])))"
    using pub(1) by (cases "writeCache S demoCfg w3 (Merge [Some docK])") simp
  have locked: "smartUpdateLocked S demoCfg w1 =
      ((False, None), snd (writeCache S demoCfg w3 (Merge [Some docK])))"
    unfolding smartUpdateLocked_unfold m r w2_def [symmetric] e g
    using stale pub(1) by (auto simp: w3_def split: prod.splits option.splits)
  have ret: "fst (SmartUpdate S demoCfg w) = (False, None)"
    by (simp add: SmartUpdate_locked [OF lock] locked)
  have after: "map_option modTime (files (snd (SmartUpdate S demoCfg w)) ''/c/banners.json'') = Some now"
    using pub(2)
    by (simp add: SmartUpdate_locked [OF lock] locked releaseLock_files sample_paths w3c)
  have before: "map_option modTime (files w ''/c/banners.json'') = Some 0"
    unfolding w_def by (simp add: worldWith_def cacheFileAt_def)
  have w1eq: "snd (acquireLock S demoCfg w) = w1"
    by (simp add: lock)
  have "map Err (fst (FetchAllWithMeta S (snd (acquireLock S demoCfg w)) (Sources demoCfg) (Some M))) = [None]
    \<and> map Modified (fst (FetchAllWithMeta S (snd (acquireLock S demoCfg w)) (Sources demoCfg) (Some M))) = [False]
    \<and> fst (SmartUpdate S demoCfg w) = (False, None)
    \<and> map_option modTime (files w ''/c/banners.json'') = Some 0
    \<and> map_option modTime (files (snd (SmartUpdate S demoCfg w)) ''/c/banners.json'') = Some now"
    unfolding w1eq r using ret after before by (simp add: R_def)
  then show ?thesis
    unfolding S_def w_def now_def M_def .
qed



lemma updateLocked_files:
  "p \<noteq> CacheFile cfg \<Longrightarrow> p \<noteq> CacheFile cfg @ ''.tmp'' \<Longrightarrow>
     files (snd (updateLocked sys cfg w1)) p = files w1 p"
  by (simp add: updateLocked_def FetchAll_def FetchAllWithMeta_def Let_def writeCache_files)

lemma Update_sidecar_files:
  assumes "metaFile sys cfg \<noteq> LockFile cfg" and "metaFile sys cfg \<noteq> CacheFile cfg"
    and "metaFile sys cfg \<noteq> CacheFile cfg @ ''.tmp''"
  shows "files (snd (Update sys cfg w force)) (metaFile sys cfg) = files w (metaFile sys cfg)"
proof (cases "acquireLock sys cfg w")
  case (Pair e w1)
  have w1: "files w1 (metaFile sys cfg) = files w (metaFile sys cfg)"
    using acquireLock_files [of "metaFile sys cfg" cfg sys w] assms(1) Pair by simp
  show ?thesis
    using assms
    by (cases e) (simp_all add: Update_def Pair case_prod_beta releaseLock_files updateLocked_files w1)
qed

text \<open>
  Claim C9, as the code has it. \<open>Update\<close> never reads or writes the metadata sidecar:
  whatever \<open>force\<close> is and however the call ends, the sidecar file is after the call what
  it was before (its path being none of the lock file, the cache file and the temporary
  file), so \<open>loadMeta\<close> returns the validators stored before the call. Only
  \<open>SmartUpdate\<close> calls \<open>saveMeta\<close>.
\<close>

theorem update_leaves_sidecar:
  assumes "metaFile sys cfg \<noteq> LockFile cfg" and "metaFile sys cfg \<noteq> CacheFile cfg"
    and "metaFile sys cfg \<noteq> CacheFile cfg @ ''.tmp''"
  shows "files (snd (Update sys cfg w force)) (metaFile sys cfg) = files w (metaFile sys cfg)
     \<and> loadMeta sys cfg (snd (Update sys cfg w force)) = loadMeta sys cfg w"
  using Update_sidecar_files [OF assms, of w force]
  by (simp add: loadMeta_def os_ReadFile_def)

text \<open>
  A forced update against the server with tag \<open>v1\<close>, on a sidecar that holds the tag
  \<open>v0\<close>: the sidecar is the file it was.
\<close>

theorem update_leaves_sidecar_witness:
  "files (snd (Update (sampleSys v1Server) demoCfg (worldWith None (Some (sidecarFile ''v0'')) 7) True))
      ''/c/meta.json'' = Some (sidecarFile ''v0'')
   \<and> loadMeta (sampleSys v1Server) demoCfg
        (snd (Update (sampleSys v1Server) demoCfg (worldWith None (Some (sidecarFile ''v0'')) 7) True))
      = [srcA \<mapsto> metaTagged ''v0'']"
proof -
  let ?w = "worldWith None (Some (sidecarFile ''v0'')) 7"
  have before: "files ?w ''/c/meta.json'' = Some (sidecarFile ''v0'')"
    by (simp add: worldWith_def)
  note t = update_leaves_sidecar [OF sample_sidecar_paths(1,2,3), of v1Server ?w True]
  from t have f: "files (snd (Update (sampleSys v1Server) demoCfg ?w True)) ''/c/meta.json''
      = Some (sidecarFile ''v0'')"
    by (simp add: sample_paths before)
  from t have "loadMeta (sampleSys v1Server) demoCfg (snd (Update (sampleSys v1Server) demoCfg ?w True))
      = loadMeta (sampleSys v1Server) demoCfg ?w"
    by simp
  with f show ?thesis
    by (simp add: sample_loadMeta(1) [OF before])
qed

text \<open>
  The claim as stated fails on that run: the update succeeds, the 200 response carries
  the validator \<open>v1\<close>, and the sidecar still holds \<open>v0\<close> for the source.
\<close>

theorem update_leaves_sidecar_counterexample:
  "fst (Update (sampleSys v1Server) demoCfg (worldWith None (Some (sidecarFile ''v0'')) 7) True) = None
   \<and> map Meta (fst (FetchAll (sampleSys v1Server)
        (snd (acquireLock (sampleSys v1Server) demoCfg (worldWith None (Some (sidecarFile ''v0'')) 7)))
        (Sources demoCfg)))
      = [Some \<lparr>ETag = ''v1'', LastModified = [], UpdatedAt = 7\<rparr>]
   \<and> loadMeta (sampleSys v1Server) demoCfg
        (snd (Update (sampleSys v1Server) demoCfg (worldWith None (Some (sidecarFile ''v0'')) 7) True))
        srcA
      = Some \<lparr>ETag = ''v0'', LastModified = [], UpdatedAt = 1000\<rparr>"
proof -
  let ?S = "sampleSys v1Server"
  let ?w = "worldWith None (Some (sidecarFile ''v0'')) 7"
  let ?w1 = "?w\<lparr>files := (files ?w)(LockFile demoCfg \<mapsto> \<lparr>bytes = ''4242'', modTime = 7, perm = FileMode\<rparr>)\<rparr>"
  have lock: "acquireLock ?S demoCfg ?w = (None, ?w1)"
    by (simp add: sample_lock sample_paths)
  have src: "Sources demoCfg = [srcA]"
    by (simp add: demoCfg_def srcA_def)
  have r: "fst (FetchAll ?S ?w1 (Sources demoCfg)) =
      [\<lparr>Source = srcA, Data = Some docK,
        Meta = Some \<lparr>ETag = ''v1'', LastModified = [], UpdatedAt = 7\<rparr>, Modified = True, Err = None\<rparr>]"
    by (simp add: FetchAll_def FetchAllWithMeta_def src sample_fetch_fresh worldWith_def)
  have ok: "fst (Update ?S demoCfg ?w True) = None"
    by (simp add: Update_forced [OF lock] r writeCache_publishes(1) [OF sample_writeWorks]
        sample_fields Merge_docK)
  have before: "files ?w ''/c/meta.json'' = Some (sidecarFile ''v0'')"
    by (simp add: worldWith_def)
  have f: "files (snd (Update ?S demoCfg ?w True)) ''/c/meta.json'' = Some (sidecarFile ''v0'')"
    using Update_sidecar_files [OF sample_sidecar_paths(1,2,3), of v1Server ?w True]
    by (simp add: sample_paths before)
  show ?thesis
    by (simp add: ok lock r sample_loadMeta(1) [OF f] metaTagged_def)
qed

end
